theory Spec2Isabelle
  imports Complex_Main
begin

section \<open>Numbers and vectors\<close>

text \<open>
  JavaScript numbers are modelled as real numbers: every property below is about the
  control flow and the arithmetic of the game code, not about rounding in the last bit.
  \<open>Infinity\<close>, where the code uses it, is the value \<open>None\<close> of an option.
\<close>

definition js_round :: "real \<Rightarrow> int" where
  \<comment> \<open>\<open>Math.round\<close>: nearest integer, a half rounds up\<close>
  "js_round v = \<lfloor>v + 1 / 2\<rfloor>"

definition js_floor :: "real \<Rightarrow> int" where
  "js_floor v = \<lfloor>v\<rfloor>"

definition clamp_unit :: "real \<Rightarrow> real" where
  \<comment> \<open>\<open>Math.max(-1, Math.min(1, d))\<close>\<close>
  "clamp_unit d = max (- 1) (min 1 d)"

record vec3 =
  vx :: real
  vy :: real
  vz :: real

definition V3 :: "real \<Rightarrow> real \<Rightarrow> real \<Rightarrow> vec3" where
  "V3 a b c = \<lparr>vx = a, vy = b, vz = c\<rparr>"

definition subVectors :: "vec3 \<Rightarrow> vec3 \<Rightarrow> vec3" where
  "subVectors a b = \<lparr>vx = vx a - vx b, vy = vy a - vy b, vz = vz a - vz b\<rparr>"

definition addVec :: "vec3 \<Rightarrow> vec3 \<Rightarrow> vec3" where
  "addVec a b = \<lparr>vx = vx a + vx b, vy = vy a + vy b, vz = vz a + vz b\<rparr>"

definition multiplyScalar :: "vec3 \<Rightarrow> real \<Rightarrow> vec3" where
  "multiplyScalar a s = \<lparr>vx = vx a * s, vy = vy a * s, vz = vz a * s\<rparr>"

definition vlength :: "vec3 \<Rightarrow> real" where
  "vlength a = sqrt (vx a * vx a + vy a * vy a + vz a * vz a)"

definition normalize :: "vec3 \<Rightarrow> vec3" where
  \<comment> \<open>\<open>divideScalar(this.length() || 1)\<close>: the zero vector stays the zero vector\<close>
  "normalize a = (let l = vlength a in multiplyScalar a (1 / (if l = 0 then 1 else l)))"

definition distanceTo :: "vec3 \<Rightarrow> vec3 \<Rightarrow> real" where
  "distanceTo a b = vlength (subVectors a b)"

definition dot :: "vec3 \<Rightarrow> vec3 \<Rightarrow> real" where
  "dot a b = vx a * vx b + vy a * vy b + vz a * vz b"

definition lerpVectors :: "vec3 \<Rightarrow> vec3 \<Rightarrow> real \<Rightarrow> vec3" where
  "lerpVectors v1 v2 alpha =
     \<lparr>vx = vx v1 + (vx v2 - vx v1) * alpha,
      vy = vy v1 + (vy v2 - vy v1) * alpha,
      vz = vz v1 + (vz v2 - vz v1) * alpha\<rparr>"

definition flat :: "vec3 \<Rightarrow> vec3" where
  \<comment> \<open>\<open>v.y = 0\<close>\<close>
  "flat a = a\<lparr>vy := 0\<rparr>"

section \<open>The shared objects: player, combat system, game freeze, telegraphs\<close>

text \<open>
  The JavaScript objects hold references to each other (an enemy to its target, to the
  combat system, to the telegraph and fireball managers). The model keeps one record
  \<open>shared\<close> with the objects an enemy can reach, threads it through every method that
  mutates one of them, and keeps in each object a flag for every reference that the code
  tests against \<open>null\<close>. Objects with an identity that several lists share (telegraphs,
  fireballs) live in a store, a list indexed by their identity, and the lists of the
  managers hold identities. Rendering state (materials, UV coordinates, meshes, the
  console) is left out. The field \<open>eventLog\<close> records the calls that hand damage or a warning
  to the rest of the game, in the order in which they are made.
\<close>

record player =
  pl_position :: vec3
  pl_hasHurt :: bool
  pl_isHurt :: bool
  pl_isAttacking :: bool

definition hurt :: "player \<Rightarrow> player \<times> bool" where
  \<comment> \<open>\<open>CharacterSprite.hurt\<close>: refused while already hurt or attacking\<close>
  "hurt p = (if pl_isHurt p \<or> pl_isAttacking p then (p, False)
             else (p\<lparr>pl_isHurt := True\<rparr>, True))"

record combat =
  cs_hasGame :: bool
  cs_hasPlayerController :: bool
  cs_hasHealthOrbManager :: bool
  cs_attackRange :: real
  cs_attackAngle :: real
  cs_attackCooldown :: real
  cs_attackCooldownDuration :: real
  cs_lightningStrikeCooldown :: real
  cs_isLightningStriking :: bool
  cs_baseDamage :: real
  cs_damageVariance :: real
  cs_criticalChance :: real
  cs_criticalMultiplier :: real
  cs_playerHealth :: real
  cs_playerMaxHealth :: real
  cs_playerInvulnerable :: bool
  cs_invulnerabilityDuration :: real
  cs_invulnerabilityTimer :: real
  cs_isAttacking :: bool
  cs_attackTimer :: real
  cs_attackDuration :: real

datatype attack_type = Melee | Ranged | Area

record telegraph =
  tg_attackType :: attack_type
  tg_range :: real
  tg_warningTime :: real
  tg_elapsedTime :: real
  tg_isActive :: bool
  tg_visible :: bool
  tg_hasGlowEffect :: bool
  tg_explosionTriggered :: bool
  tg_explosionTime :: real
  tg_glowFadeOutDuration :: real
  tg_position :: vec3
  tg_followTarget :: "nat option"
  tg_parent :: bool

datatype event =
    EvTelegraph attack_type real real
  | EvPlayerDamage real bool
  | EvFireballLaunch vec3 bool
  | EvHealthOrb vec3

record fireball =
  fb_fallSpeed :: real
  fb_damage :: real
  fb_explosionRadius :: real
  fb_telegraphRadius :: real
  fb_lifetime :: real
  fb_maxLifetime :: real
  fb_startY :: real
  fb_targetPosition :: vec3
  fb_position :: vec3
  fb_velocity :: vec3
  fb_isActive :: bool
  fb_hasExploded :: bool
  fb_visible :: bool
  fb_isPlaying :: bool
  fb_currentFrame :: nat
  fb_totalFrames :: nat
  fb_elapsedTime :: real
  fb_frameTime :: real
  fb_telegraph :: "nat option"
  fb_hasTelegraphManager :: bool
  fb_hasManager :: bool
  fb_onComplete :: bool

record shared =
  freezeTime :: real
  freezeDuration :: real
  thePlayer :: player
  combatSystem :: combat
  telegraphObjs :: "telegraph list"
  activeTelegraphs :: "nat list"
  fireballObjs :: "fireball list"
  fireballPool :: "nat list"
  activeFireballs :: "nat list"
  fm_hasCombatSystem :: bool
  fm_hasTelegraphManager :: bool
  pendingTelegraphs :: "(nat \<times> real \<times> real) list"
  eventLog :: "event list"

definition emit :: "event \<Rightarrow> shared \<Rightarrow> shared" where
  "emit ev sh = sh\<lparr>eventLog := eventLog sh @ [ev]\<rparr>"

subsection \<open>CatQuestGame.freezeFrame and CombatSystem.handlePlayerDamage\<close>

definition freezeFrame :: "real \<Rightarrow> shared \<Rightarrow> shared" where
  "freezeFrame duration sh = sh\<lparr>freezeTime := duration, freezeDuration := duration\<rparr>"

definition handlePlayerDamage :: "real \<Rightarrow> shared \<Rightarrow> shared \<times> bool" where
  "handlePlayerDamage damage sh =
     (let cs = combatSystem sh in
      if cs_playerInvulnerable cs then (emit (EvPlayerDamage damage False) sh, False)
      else
        let sh1 = emit (EvPlayerDamage damage True) sh;
            sh2 = sh1\<lparr>combatSystem := cs\<lparr>cs_playerHealth := cs_playerHealth cs - damage\<rparr>\<rparr>;
            sh3 = (if cs_hasGame cs then freezeFrame (1 / 10) sh2 else sh2);
            cs3 = combatSystem sh3
        in (sh3\<lparr>combatSystem := cs3\<lparr>cs_playerInvulnerable := True,
                     cs_invulnerabilityTimer := cs_invulnerabilityDuration cs3\<rparr>\<rparr>, True))"

definition combat_update :: "real \<Rightarrow> combat \<Rightarrow> combat" where
  \<comment> \<open>\<open>CombatSystem.update\<close>\<close>
  "combat_update deltaTime cs =
     (let cs1 = (if cs_attackCooldown cs > 0
                 then cs\<lparr>cs_attackCooldown := cs_attackCooldown cs - deltaTime\<rparr> else cs);
          cs2 = (if cs_lightningStrikeCooldown cs1 > 0
                 then cs1\<lparr>cs_lightningStrikeCooldown := cs_lightningStrikeCooldown cs1 - deltaTime\<rparr>
                 else cs1);
          cs3 = (if cs_isAttacking cs2
                 then (let c = cs2\<lparr>cs_attackTimer := cs_attackTimer cs2 - deltaTime\<rparr>
                       in if cs_attackTimer c \<le> 0 then c\<lparr>cs_isAttacking := False\<rparr> else c)
                 else cs2)
      in if cs_playerInvulnerable cs3
         then (let c = cs3\<lparr>cs_invulnerabilityTimer := cs_invulnerabilityTimer cs3 - deltaTime\<rparr>
               in if cs_invulnerabilityTimer c \<le> 0 then c\<lparr>cs_playerInvulnerable := False\<rparr> else c)
         else cs3)"

subsection \<open>CombatSystem.calculateDamage\<close>

text \<open>
  \<open>CombatSystem.calculateDamage\<close> draws two numbers from \<open>Math.random()\<close>, each in
  \<open>[0, 1)\<close>; they are the parameters \<open>r1\<close> and \<open>r2\<close>.
\<close>

definition calculateDamage ::
  "real \<Rightarrow> real \<Rightarrow> real \<Rightarrow> real \<Rightarrow> real \<Rightarrow> real \<Rightarrow> int \<times> bool" where
  "calculateDamage baseDamage damageVariance criticalChance criticalMultiplier r1 r2 =
     (let variance = (r1 - 1 / 2) * 2 * damageVariance;
          damage = js_round (baseDamage * (1 + variance));
          isCritical = (r2 < criticalChance)
      in if isCritical then (js_round (real_of_int damage * criticalMultiplier), True)
         else (damage, False))"

subsection \<open>AttackTelegraph and TelegraphManager\<close>

definition newTelegraph :: "attack_type \<Rightarrow> real \<Rightarrow> real \<Rightarrow> telegraph" where
  \<comment> \<open>the constructor: only an area telegraph gets the glow effect\<close>
  "newTelegraph attackType rnge warningTime =
     \<lparr>tg_attackType = attackType, tg_range = rnge, tg_warningTime = warningTime,
      tg_elapsedTime = 0, tg_isActive = False, tg_visible = False,
      tg_hasGlowEffect = (attackType = Area), tg_explosionTriggered = False,
      tg_explosionTime = 0, tg_glowFadeOutDuration = 1,
      tg_position = V3 0 0 0, tg_followTarget = None, tg_parent = False\<rparr>"

definition startTelegraph :: "vec3 \<Rightarrow> nat option \<Rightarrow> telegraph \<Rightarrow> telegraph" where
  "startTelegraph pos followTarget t =
     t\<lparr>tg_position := pos\<lparr>vy := 0\<rparr>, tg_followTarget := followTarget,
       tg_elapsedTime := 0, tg_isActive := True, tg_visible := True\<rparr>"

definition createTelegraph ::
  "attack_type \<Rightarrow> vec3 \<Rightarrow> real \<Rightarrow> real \<Rightarrow> nat option \<Rightarrow> shared \<Rightarrow> shared \<times> nat" where
  "createTelegraph attackType pos rnge warningTime followTarget sh =
     (let tid = length (telegraphObjs sh);
          t = startTelegraph pos followTarget
                ((newTelegraph attackType rnge warningTime)\<lparr>tg_parent := True\<rparr>)
      in (emit (EvTelegraph attackType rnge warningTime)
            (sh\<lparr>telegraphObjs := telegraphObjs sh @ [t],
                 activeTelegraphs := activeTelegraphs sh @ [tid]\<rparr>), tid))"

definition cancel :: "telegraph \<Rightarrow> telegraph" where
  "cancel t = t\<lparr>tg_isActive := False, tg_visible := False, tg_elapsedTime := 0,
               tg_parent := False\<rparr>"

definition cancelTelegraph :: "nat \<Rightarrow> shared \<Rightarrow> shared" where
  \<comment> \<open>\<open>telegraph.cancel()\<close> through a reference\<close>
  "cancelTelegraph tid sh =
     (if tid < length (telegraphObjs sh)
      then sh\<lparr>telegraphObjs := (telegraphObjs sh)[tid := cancel (telegraphObjs sh ! tid)]\<rparr>
      else sh)"

definition completeTelegraph :: "telegraph \<Rightarrow> telegraph" where
  "completeTelegraph t =
     (let t1 = t\<lparr>tg_isActive := False\<rparr>
      in if \<not> tg_hasGlowEffect t1 then t1\<lparr>tg_visible := False\<rparr> else t1)"

definition reachesOne :: "real \<Rightarrow> real \<Rightarrow> bool" where
  \<comment> \<open>\<open>Math.min(a / b, 1) >= 1\<close> as JavaScript computes it: a positive number over 0 is
      \<open>Infinity\<close>; \<open>0 / 0\<close> is \<open>NaN\<close> and a negative number over 0 is \<open>-Infinity\<close>, and
      neither reaches 1\<close>
  "reachesOne a b = (if b = 0 then a > 0 else min (a / b) 1 \<ge> 1)"

definition telegraph_update :: "(nat \<Rightarrow> vec3 option) \<Rightarrow> real \<Rightarrow> telegraph \<Rightarrow> telegraph" where
  \<comment> \<open>\<open>AttackTelegraph.update\<close>; \<open>follow\<close> reads the position of the followed enemy;
      \<open>progress\<close> and \<open>fadeProgress\<close> are only compared with 1 here, the rest of their use
      is drawing\<close>
  "telegraph_update follow deltaTime t =
     (if \<not> tg_isActive t \<and> \<not> tg_explosionTriggered t then t
      else
        let t1 = (case tg_followTarget t of
                    None \<Rightarrow> t
                  | Some i \<Rightarrow> (case follow i of
                                 None \<Rightarrow> t
                               | Some p \<Rightarrow> t\<lparr>tg_position := p\<lparr>vy := 0\<rparr>\<rparr>));
            t2 = t1\<lparr>tg_elapsedTime := tg_elapsedTime t1 + deltaTime\<rparr>;
            progressDone = reachesOne (tg_elapsedTime t2) (tg_warningTime t2);
            t3 = (if tg_hasGlowEffect t2 then
                    (if \<not> tg_explosionTriggered t2 then
                       (if progressDone
                        then t2\<lparr>tg_explosionTriggered := True, tg_explosionTime := 0\<rparr> else t2)
                     else
                       (let t' = t2\<lparr>tg_explosionTime := tg_explosionTime t2 + deltaTime\<rparr>;
                            fadeDone = reachesOne (tg_explosionTime t') (tg_glowFadeOutDuration t')
                        in if fadeDone then t'\<lparr>tg_visible := False\<rparr> else t'))
                  else t2)
        in if progressDone then completeTelegraph t3 else t3)"

fun tm_loop :: "(nat \<Rightarrow> vec3 option) \<Rightarrow> real \<Rightarrow> nat \<Rightarrow> shared \<Rightarrow> shared" where
  \<comment> \<open>the loop of \<open>TelegraphManager.update\<close>, from the last index down to 0\<close>
  "tm_loop follow deltaTime 0 sh = sh"
| "tm_loop follow deltaTime (Suc i) sh =
     (let tid = activeTelegraphs sh ! i;
          t = telegraph_update follow deltaTime (telegraphObjs sh ! tid);
          sh1 = sh\<lparr>telegraphObjs := (telegraphObjs sh)[tid := t]\<rparr>
      in tm_loop follow deltaTime i
           (if \<not> tg_isActive t \<and> \<not> tg_visible t
            then sh1\<lparr>telegraphObjs := (telegraphObjs sh1)[tid := t\<lparr>tg_parent := False\<rparr>],
                     activeTelegraphs := take i (activeTelegraphs sh1) @ drop (Suc i) (activeTelegraphs sh1)\<rparr>
            else sh1))"

definition cleanupCancelled :: "shared \<Rightarrow> shared" where
  "cleanupCancelled sh =
     sh\<lparr>activeTelegraphs :=
          filter (\<lambda>tid. \<not> (\<not> tg_isActive (telegraphObjs sh ! tid) \<and> \<not> tg_parent (telegraphObjs sh ! tid)))
            (activeTelegraphs sh)\<rparr>"

definition telegraphManager_update :: "(nat \<Rightarrow> vec3 option) \<Rightarrow> real \<Rightarrow> shared \<Rightarrow> shared" where
  "telegraphManager_update follow deltaTime sh =
     (let sh1 = cleanupCancelled sh
      in tm_loop follow deltaTime (length (activeTelegraphs sh1)) sh1)"

section \<open>Fireball and FireballManager\<close>

datatype js_value = Undefined | Boolean bool

definition newFireball :: fireball where
  \<comment> \<open>the constructor as \<open>FireballManager.initialize\<close> calls it: 6 x 5 frames at 12 fps\<close>
  "newFireball =
     \<lparr>fb_fallSpeed = 5 / 2, fb_damage = 1, fb_explosionRadius = 5 / 2,
      fb_telegraphRadius = 83 / 100, fb_lifetime = 0, fb_maxLifetime = 5, fb_startY = 15,
      fb_targetPosition = V3 0 0 0, fb_position = V3 0 0 0, fb_velocity = V3 0 0 0,
      fb_isActive = False, fb_hasExploded = False, fb_visible = False, fb_isPlaying = False,
      fb_currentFrame = 0, fb_totalFrames = 30, fb_elapsedTime = 0, fb_frameTime = 1 / 12,
      fb_telegraph = None, fb_hasTelegraphManager = False, fb_hasManager = False,
      fb_onComplete = False\<rparr>"

definition initialize :: "nat \<Rightarrow> bool \<Rightarrow> shared \<Rightarrow> shared" where
  \<comment> \<open>\<open>FireballManager.initialize\<close>: the pool is filled once, when the texture has loaded\<close>
  "initialize maxFireballs textureLoaded sh =
     (if textureLoaded
      then sh\<lparr>fireballObjs := fireballObjs sh @
                  replicate maxFireballs
                    (newFireball\<lparr>fb_hasManager := True,
                                 fb_hasTelegraphManager := fm_hasTelegraphManager sh\<rparr>),
               fireballPool := fireballPool sh @
                  [length (fireballObjs sh) ..< length (fireballObjs sh) + maxFireballs]\<rparr>
      else sh)"

definition setFireball :: "nat \<Rightarrow> fireball \<Rightarrow> shared \<Rightarrow> shared" where
  "setFireball fid fb sh = sh\<lparr>fireballObjs := (fireballObjs sh)[fid := fb]\<rparr>"

definition isInTelegraphArea :: "fireball \<Rightarrow> vec3 \<Rightarrow> bool" where
  "isInTelegraphArea fb pos = (distanceTo (fb_targetPosition fb) pos \<le> fb_telegraphRadius fb)"

definition isOverlapping :: "fireball \<Rightarrow> vec3 \<Rightarrow> real \<Rightarrow> bool" where
  \<comment> \<open>the test against the explosion radius; no caller in the repository\<close>
  "isOverlapping fb pos radius = (distanceTo (fb_position fb) pos \<le> fb_explosionRadius fb + radius)"

definition handleFireballExplosion :: "nat \<Rightarrow> shared \<Rightarrow> shared" where
  "handleFireballExplosion fid sh =
     (if fm_hasCombatSystem sh \<and> cs_hasPlayerController (combatSystem sh)
      then (let playerPos = pl_position (thePlayer sh)
            in if isInTelegraphArea (fireballObjs sh ! fid) playerPos
               then fst (handlePlayerDamage (fb_damage (fireballObjs sh ! fid)) sh)
               else sh)
      else sh)"

definition returnFireballToPool :: "nat \<Rightarrow> shared \<Rightarrow> shared" where
  "returnFireballToPool fid sh =
     (if fid \<in> set (activeFireballs sh)
      then sh\<lparr>activeFireballs := remove1 fid (activeFireballs sh),
               fireballPool := fireballPool sh @ [fid]\<rparr>
      else sh)"

definition removeFireballTelegraph :: "nat \<Rightarrow> shared \<Rightarrow> shared" where
  "removeFireballTelegraph fid sh =
     (case fb_telegraph (fireballObjs sh ! fid) of
        None \<Rightarrow> sh
      | Some tid \<Rightarrow>
          setFireball fid ((fireballObjs sh ! fid)\<lparr>fb_telegraph := None\<rparr>) (cancelTelegraph tid sh))"

definition removeFireball :: "nat \<Rightarrow> shared \<Rightarrow> shared" where
  "removeFireball fid sh =
     (let fb = (fireballObjs sh ! fid)\<lparr>fb_isActive := False, fb_visible := False\<rparr>;
          sh1 = setFireball fid fb sh
      in if fb_hasManager fb then returnFireballToPool fid sh1 else sh1)"

definition triggerGroundImpact :: "nat \<Rightarrow> shared \<Rightarrow> shared" where
  "triggerGroundImpact fid sh =
     (if fb_hasExploded (fireballObjs sh ! fid) then sh
      else
        let sh1 = setFireball fid ((fireballObjs sh ! fid)\<lparr>fb_hasExploded := True\<rparr>) sh;
            sh2 = removeFireballTelegraph fid sh1;
            sh3 = (if fb_onComplete (fireballObjs sh2 ! fid)
                   then handleFireballExplosion fid sh2 else sh2)
        in removeFireball fid sh3)"

definition explode :: "nat \<Rightarrow> shared \<Rightarrow> shared" where
  "explode fid sh =
     (if fb_hasExploded (fireballObjs sh ! fid) then removeFireball fid sh
      else removeFireball fid (triggerGroundImpact fid sh))"

definition fireball_update :: "nat \<Rightarrow> real \<Rightarrow> shared \<Rightarrow> shared" where
  "fireball_update fid deltaTime sh =
     (let fb = fireballObjs sh ! fid in
      if \<not> fb_isActive fb then sh
      else
        let fb1 = fb\<lparr>fb_lifetime := fb_lifetime fb + deltaTime\<rparr> in
        if fb_lifetime fb1 \<ge> fb_maxLifetime fb1 then explode fid (setFireball fid fb1 sh)
        else
          let fb2 = fb1\<lparr>fb_position :=
                        addVec (fb_position fb1) (multiplyScalar (fb_velocity fb1) deltaTime)\<rparr> in
          if vy (fb_position fb2) \<le> 0 \<and> \<not> fb_hasExploded fb2
          then triggerGroundImpact fid (setFireball fid fb2 sh)
          else if fb_isPlaying fb2 then
            (let fb3 = fb2\<lparr>fb_elapsedTime := fb_elapsedTime fb2 + deltaTime\<rparr>
             in if fb_elapsedTime fb3 \<ge> fb_frameTime fb3
                then setFireball fid
                       (fb3\<lparr>fb_elapsedTime := 0,
                            fb_currentFrame := (fb_currentFrame fb3 + 1) mod fb_totalFrames fb3\<rparr>) sh
                else setFireball fid fb3 sh)
          else setFireball fid fb2 sh)"

definition createFireballTelegraph :: "nat \<Rightarrow> shared \<Rightarrow> shared" where
  \<comment> \<open>the telegraph is created by a \<open>setTimeout\<close> callback; the pending callback is
      recorded with its delay (in seconds) and the telegraph duration it has captured\<close>
  "createFireballTelegraph fid sh =
     (let fb = fireballObjs sh ! fid in
      if \<not> fb_hasTelegraphManager fb then sh
      else
        let explosionTime = (fb_startY fb - 0) / fb_fallSpeed fb;
            telegraphDuration = min (3 / 2) explosionTime;
            telegraphDelay = explosionTime - telegraphDuration
        in sh\<lparr>pendingTelegraphs := pendingTelegraphs sh @ [(fid, telegraphDelay, telegraphDuration)]\<rparr>)"

definition fireballTelegraphCallback :: "nat \<Rightarrow> real \<Rightarrow> shared \<Rightarrow> shared" where
  \<comment> \<open>the body of the \<open>setTimeout\<close> callback\<close>
  "fireballTelegraphCallback fid telegraphDuration sh =
     (let fb = fireballObjs sh ! fid in
      if fb_isActive fb \<and> \<not> fb_hasExploded fb
      then (case createTelegraph Area (fb_targetPosition fb) (fb_telegraphRadius fb)
                   telegraphDuration None sh of
              (sh1, tid) \<Rightarrow> setFireball fid ((fireballObjs sh1 ! fid)\<lparr>fb_telegraph := Some tid\<rparr>) sh1)
      else sh)"

definition launch :: "nat \<Rightarrow> vec3 \<Rightarrow> shared \<Rightarrow> shared" where
  \<comment> \<open>\<open>Fireball.launch(targetPosition, onComplete)\<close> with the callback of the manager\<close>
  "launch fid targetPosition sh =
     (let fb = fireballObjs sh ! fid;
          totalFallDistance = fb_startY fb - 0;
          calculatedLifetime = totalFallDistance / fb_fallSpeed fb + 1;
          fb1 = fb\<lparr>fb_targetPosition := targetPosition,
                   fb_position := targetPosition\<lparr>vy := fb_startY fb\<rparr>,
                   fb_velocity := V3 0 (- fb_fallSpeed fb) 0,
                   fb_maxLifetime := max calculatedLifetime 7,
                   fb_currentFrame := 0, fb_elapsedTime := 0, fb_isPlaying := True,
                   fb_isActive := True, fb_hasExploded := False, fb_visible := True,
                   fb_onComplete := True, fb_lifetime := 0\<rparr>
      in createFireballTelegraph fid (setFireball fid fb1 sh))"

definition launchFireball :: "vec3 \<Rightarrow> shared \<Rightarrow> shared \<times> js_value" where
  \<comment> \<open>both paths end without a return value\<close>
  "launchFireball targetPosition sh =
     (if length (fireballPool sh) = 0
      then (emit (EvFireballLaunch targetPosition False) sh, Undefined)
      else
        let fid = last (fireballPool sh);
            sh1 = (emit (EvFireballLaunch targetPosition True) sh)
                     \<lparr>fireballPool := butlast (fireballPool sh),
                      activeFireballs := activeFireballs sh @ [fid]\<rparr>;
            sh2 = (if fm_hasTelegraphManager sh1
                   then setFireball fid ((fireballObjs sh1 ! fid)\<lparr>fb_hasTelegraphManager := True\<rparr>) sh1
                   else sh1)
        in (launch fid targetPosition sh2, Undefined))"

fun fm_forEach :: "nat \<Rightarrow> nat \<Rightarrow> real \<Rightarrow> shared \<Rightarrow> shared" where
  \<comment> \<open>\<open>activeFireballs.forEach\<close>: \<open>k\<close> indices are left, \<open>i\<close> is the current one; the
      callback may shorten the array, and an index past its end is skipped\<close>
  "fm_forEach 0 i deltaTime sh = sh"
| "fm_forEach (Suc k) i deltaTime sh =
     fm_forEach k (Suc i) deltaTime
       (if i < length (activeFireballs sh)
        then fireball_update (activeFireballs sh ! i) deltaTime sh else sh)"

definition fireballManager_update :: "real \<Rightarrow> shared \<Rightarrow> shared" where
  "fireballManager_update deltaTime sh = fm_forEach (length (activeFireballs sh)) 0 deltaTime sh"

section \<open>Enemy\<close>

datatype AIState = PATROL | CHASE | SEARCH | ATTACK | STUNNED | RETURN

datatype animation = Walk | Attack | Hit | Death | NoAnimation

record healthBar =
  hb_currentHealth :: real
  hb_maxHealth :: real
  hb_visible :: bool
  hb_hideTimer :: real
  hb_hideDelay :: real

definition setHealth :: "real \<Rightarrow> real \<Rightarrow> bool \<Rightarrow> healthBar \<Rightarrow> healthBar" where
  "setHealth current mx showBar hb =
     (let hb1 = hb\<lparr>hb_currentHealth := current, hb_maxHealth := mx\<rparr>
      in if showBar \<and> current < mx then hb1\<lparr>hb_visible := True, hb_hideTimer := 0\<rparr> else hb1)"

definition updateHealthBar :: "real \<Rightarrow> healthBar \<Rightarrow> healthBar" where
  "updateHealthBar deltaTime hb =
     (if \<not> hb_visible hb then hb
      else let hb1 = hb\<lparr>hb_hideTimer := hb_hideTimer hb + deltaTime\<rparr>
           in if hb_hideTimer hb1 \<ge> hb_hideDelay hb1 then hb1\<lparr>hb_visible := False\<rparr> else hb1)"

text \<open>
  The fields of \<open>Enemy\<close>, under the names of the source. \<open>eid\<close> is the identity of the
  object (a telegraph follows an enemy through it); \<open>walkFrames\<close>, \<open>hitFrames\<close>,
  \<open>deathFrames\<close> and \<open>attackFramesList\<close> are the frame counts that the code computes from
  the widths of the sprite sheets; \<open>hasTarget\<close>, \<open>hasCombatSystem\<close>,
  \<open>hasTelegraphManager\<close> and \<open>hasFireballManager\<close> say whether the reference of that name
  is set.
\<close>

record enemy =
  eid :: nat
  fps :: real
  frameTime :: real
  currentFrame :: nat
  elapsedTime :: real
  totalFrames :: nat
  isPlaying :: bool
  currentAnimation :: animation
  walkFrames :: nat
  attackFramesList :: "nat list"
  currentAttackIndex :: nat
  hitFrames :: nat
  hitAnimationSpeed :: real
  deathFrames :: nat
  deathAnimationSpeed :: real
  deathAnimationComplete :: bool
  position :: vec3
  baseY :: real
  moveSpeed :: real
  currentDirection :: real
  patrolCenter :: vec3
  patrolRadius :: real
  patrolAngle :: real
  currentState :: AIState
  detectionRange :: real
  loseTargetRange :: real
  visionAngle :: real
  detectionTimer :: real
  detectionInterval :: real
  chaseSpeed :: real
  lastKnownPlayerPosition :: vec3
  hasSeenPlayer :: bool
  searchTimer :: real
  searchDuration :: real
  searchRadius :: real
  searchAngle :: real
  returnSpeed :: real
  returnTolerance :: real
  maxHealth :: real
  health :: real
  isDead :: bool
  healthBar :: healthBar
  attackRange :: real
  attackDamage :: real
  attackCooldown :: real
  attackCooldownDuration :: real
  isAttacking :: bool
  hasTarget :: bool
  hasCombatSystem :: bool
  hasTelegraphManager :: bool
  hasFireballManager :: bool
  isFireballCaster :: bool
  currentTelegraph :: "nat option"
  telegraphCreated :: bool
  isHit :: bool
  isKnockedBack :: bool
  knockbackTimer :: real
  knockbackDuration :: real
  knockbackDistance :: real
  knockbackOrigin :: vec3
  knockbackTarget :: vec3
  scalePunchTimer :: real
  scalePunchDuration :: real
  maxScalePunch :: real
  scale :: vec3

text \<open>The draws from \<open>Math.random()\<close> that one call can make, each in \<open>[0, 1)\<close>.\<close>

record rand =
  r_attack :: real
  r_angle :: real
  r_dist :: real
  r_search :: real
  r_orb :: real

definition switchAnimation :: "real \<Rightarrow> animation \<Rightarrow> enemy \<Rightarrow> enemy" where
  \<comment> \<open>\<open>r\<close> is the draw that picks the attack variant\<close>
  "switchAnimation r animationType e =
     (if currentAnimation e = animationType then e
      else if currentAnimation e = Death then e
      else
        let e1 = e\<lparr>currentAnimation := animationType, currentFrame := 0, elapsedTime := 0\<rparr>
        in case animationType of
             Attack \<Rightarrow>
               (let idx = nat (js_floor (r * real (length (attackFramesList e1))))
                in e1\<lparr>currentAttackIndex := idx,
                      totalFrames := (if idx < length (attackFramesList e1)
                                      then attackFramesList e1 ! idx else 0),
                      isAttacking := True, isHit := False, frameTime := 1 / fps e1,
                      telegraphCreated := False\<rparr>)
           | Hit \<Rightarrow>
               e1\<lparr>totalFrames := hitFrames e1, isAttacking := False, isHit := True,
                  frameTime := 1 / hitAnimationSpeed e1, telegraphCreated := False\<rparr>
           | Death \<Rightarrow>
               e1\<lparr>totalFrames := deathFrames e1, isAttacking := False, isHit := False,
                  frameTime := 1 / deathAnimationSpeed e1, deathAnimationComplete := False,
                  telegraphCreated := False\<rparr>
           | _ \<Rightarrow>
               e1\<lparr>totalFrames := walkFrames e1, isAttacking := False, isHit := False,
                  frameTime := 1 / fps e1, telegraphCreated := False\<rparr>)"

definition removeAttackTelegraph :: "enemy \<times> shared \<Rightarrow> enemy \<times> shared" where
  "removeAttackTelegraph es =
     (case es of (e, sh) \<Rightarrow>
        (case currentTelegraph e of
           None \<Rightarrow> (e, sh)
         | Some tid \<Rightarrow> (e\<lparr>currentTelegraph := None\<rparr>, cancelTelegraph tid sh)))"

definition createAttackTelegraph :: "enemy \<times> shared \<Rightarrow> enemy \<times> shared" where
  "createAttackTelegraph es =
     (case es of (e, sh) \<Rightarrow>
        if \<not> hasTelegraphManager e then (e, sh)
        else
          (case removeAttackTelegraph (e, sh) of (e1, sh1) \<Rightarrow>
             let remainingFrames = real (totalFrames e1) - real (currentFrame e1);
                 remainingDuration = remainingFrames * frameTime e1;
                 telegraphDuration = max (3 / 10) remainingDuration
             in (case createTelegraph Melee (position e1) (attackRange e1) telegraphDuration
                        (Some (eid e1)) sh1 of
                   (sh2, tid) \<Rightarrow> (e1\<lparr>currentTelegraph := Some tid\<rparr>, sh2))))"

definition faceTarget :: "enemy \<Rightarrow> shared \<Rightarrow> enemy" where
  "faceTarget e sh =
     (if \<not> hasTarget e then e
      else let toTarget = flat (subVectors (pl_position (thePlayer sh)) (position e))
           in if vlength toTarget > 1 / 10
              then e\<lparr>currentDirection := (if vx toTarget > 0 then 1 else - 1)\<rparr> else e)"

definition canSeePlayer :: "enemy \<Rightarrow> shared \<Rightarrow> bool" where
  "canSeePlayer e sh =
     (if \<not> hasTarget e then False
      else
        let playerPos = pl_position (thePlayer sh);
            distance = distanceTo (position e) playerPos
        in if distance > detectionRange e then False
           else
             let toPlayer = normalize (flat (subVectors playerPos (position e)));
                 forward = (if currentState e = PATROL
                            then (let angle = patrolAngle e + pi / 2 in V3 (cos angle) 0 (sin angle))
                            else V3 (currentDirection e) 0 0);
                 d = dot toPlayer forward;
                 angle = arccos (clamp_unit d) * (180 / pi)
             in angle \<le> visionAngle e / 2)"

definition js_atan2 :: "real \<Rightarrow> real \<Rightarrow> real" where
  \<comment> \<open>\<open>Math.atan2(y, x)\<close>\<close>
  "js_atan2 b a =
     (if a > 0 then arctan (b / a)
      else if a < 0 \<and> b \<ge> 0 then arctan (b / a) + pi
      else if a < 0 then arctan (b / a) - pi
      else if b > 0 then pi / 2
      else if b < 0 then - (pi / 2)
      else 0)"

definition gt_inf :: "real option \<Rightarrow> real \<Rightarrow> bool" where
  \<comment> \<open>\<open>d > v\<close> where \<open>d\<close> may be \<open>Infinity\<close>\<close>
  "gt_inf d v = (case d of None \<Rightarrow> True | Some w \<Rightarrow> w > v)"

definition updateAI :: "real \<Rightarrow> real \<Rightarrow> enemy \<Rightarrow> shared \<Rightarrow> enemy" where
  \<comment> \<open>\<open>r\<close> is the draw for the search direction\<close>
  "updateAI deltaTime r e sh =
     (if isDead e \<or> isHit e then e
      else
        let e1 = e\<lparr>detectionTimer := detectionTimer e + deltaTime\<rparr> in
        if detectionTimer e1 \<ge> detectionInterval e1 then
          (let e2 = e1\<lparr>detectionTimer := 0\<rparr>;
               canSee = canSeePlayer e2 sh;
               playerPos = pl_position (thePlayer sh);
               distanceToPlayer = (if hasTarget e2 then Some (distanceTo (position e2) playerPos)
                                   else None)
           in case currentState e2 of
                PATROL \<Rightarrow>
                  (if canSee
                   then e2\<lparr>currentState := CHASE, hasSeenPlayer := True,
                           lastKnownPlayerPosition := playerPos\<rparr>
                   else e2)
              | CHASE \<Rightarrow>
                  (let e3 = (if canSee then e2\<lparr>lastKnownPlayerPosition := playerPos\<rparr>
                             else if gt_inf distanceToPlayer (loseTargetRange e2)
                             then e2\<lparr>currentState := SEARCH, searchTimer := 0,
                                     searchAngle := r * (pi * 2)\<rparr>
                             else e2)
                   in if \<not> gt_inf distanceToPlayer (attackRange e3) \<and> attackCooldown e3 \<le> 0
                      then e3\<lparr>currentState := ATTACK\<rparr> else e3)
              | SEARCH \<Rightarrow>
                  (if canSee
                   then e2\<lparr>currentState := CHASE, lastKnownPlayerPosition := playerPos\<rparr>
                   else e2)
              | ATTACK \<Rightarrow>
                  (if gt_inf distanceToPlayer (attackRange e2)
                   then (if canSee then e2\<lparr>currentState := CHASE\<rparr>
                         else e2\<lparr>currentState := SEARCH, searchTimer := 0\<rparr>)
                   else e2)
              | RETURN \<Rightarrow>
                  (let distanceToPatrolCenter = distanceTo (position e2) (patrolCenter e2)
                   in if distanceToPatrolCenter \<le> returnTolerance e2
                      then (let dx = vx (position e2) - vx (patrolCenter e2);
                                dz = vz (position e2) - vz (patrolCenter e2)
                            in e2\<lparr>currentState := PATROL, patrolAngle := js_atan2 dz dx\<rparr>)
                      else if canSee
                      then e2\<lparr>currentState := CHASE, lastKnownPlayerPosition := playerPos\<rparr>
                      else e2)
              | STUNNED \<Rightarrow> e2)
        else e1)"

subsection \<open>Movement\<close>

definition patrolBehavior :: "real \<Rightarrow> enemy \<Rightarrow> enemy" where
  "patrolBehavior deltaTime e =
     (let a0 = patrolAngle e + (moveSpeed e * deltaTime) / patrolRadius e;
          a = (if a0 > pi * 2 then a0 - pi * 2 else a0);
          newX = vx (patrolCenter e) + cos a * patrolRadius e;
          newZ = vz (patrolCenter e) + sin a * patrolRadius e;
          deltaX = newX - vx (position e);
          e1 = e\<lparr>patrolAngle := a\<rparr>;
          e2 = (if \<bar>deltaX\<bar> > 1 / 1000
                then e1\<lparr>currentDirection := (if deltaX > 0 then 1 else - 1)\<rparr> else e1)
      in e2\<lparr>position := (position e2)\<lparr>vx := newX, vz := newZ\<rparr>\<rparr>)"

definition moveToward :: "vec3 \<Rightarrow> real \<Rightarrow> enemy \<Rightarrow> enemy" where
  \<comment> \<open>the common body of chase, search and return: a step along \<open>v\<close> when it is longer
      than 0.1, and the facing taken from the sign of its \<open>x\<close>\<close>
  "moveToward v stepLength e =
     (if vlength v > 1 / 10
      then (let n = normalize v;
                movement = multiplyScalar n stepLength
            in e\<lparr>position := addVec (position e) movement,
                 currentDirection := (if vx movement > 0 then 1 else - 1)\<rparr>)
      else e)"

definition chaseBehavior :: "real \<Rightarrow> enemy \<Rightarrow> shared \<Rightarrow> enemy" where
  "chaseBehavior deltaTime e sh =
     (if \<not> hasTarget e then e
      else moveToward (flat (subVectors (pl_position (thePlayer sh)) (position e)))
             (chaseSpeed e * deltaTime) e)"

definition searchBehavior :: "real \<Rightarrow> enemy \<Rightarrow> enemy" where
  "searchBehavior deltaTime e =
     (let e1 = e\<lparr>searchTimer := searchTimer e + deltaTime\<rparr> in
      if searchTimer e1 \<ge> searchDuration e1 then e1\<lparr>currentState := RETURN\<rparr>
      else
        let e2 = e1\<lparr>searchAngle := searchAngle e1 + (moveSpeed e1 * deltaTime) / searchRadius e1\<rparr>;
            searchX = vx (lastKnownPlayerPosition e2) + cos (searchAngle e2) * searchRadius e2;
            searchZ = vz (lastKnownPlayerPosition e2) + sin (searchAngle e2) * searchRadius e2;
            toSearch = subVectors (V3 searchX (vy (position e2)) searchZ) (position e2)
        in moveToward toSearch (moveSpeed e2 * deltaTime) e2)"

definition returnBehavior :: "real \<Rightarrow> enemy \<Rightarrow> enemy" where
  "returnBehavior deltaTime e =
     moveToward (flat (subVectors (patrolCenter e) (position e))) (returnSpeed e * deltaTime) e"

definition updateMovementByState :: "real \<Rightarrow> enemy \<Rightarrow> shared \<Rightarrow> enemy" where
  "updateMovementByState deltaTime e sh =
     (if isKnockedBack e then e
      else case currentState e of
             PATROL \<Rightarrow> patrolBehavior deltaTime e
           | CHASE \<Rightarrow> chaseBehavior deltaTime e sh
           | SEARCH \<Rightarrow> searchBehavior deltaTime e
           | ATTACK \<Rightarrow> e
           | RETURN \<Rightarrow> returnBehavior deltaTime e
           | STUNNED \<Rightarrow> e)"

subsection \<open>Knockback\<close>

definition applyKnockback :: "vec3 \<Rightarrow> enemy \<Rightarrow> enemy" where
  "applyKnockback fromPosition e =
     (let knockbackDir = normalize (flat (subVectors (position e) fromPosition))
      in e\<lparr>knockbackOrigin := position e,
           knockbackTarget := addVec (position e) (multiplyScalar knockbackDir (knockbackDistance e)),
           isKnockedBack := True, knockbackTimer := 0\<rparr>)"

definition easeT :: "real \<Rightarrow> real" where
  \<comment> \<open>the easing curve of the knockback, \<open>t\<close> the elapsed fraction of the duration\<close>
  "easeT t = (if t < 3 / 10 then t / (3 / 10) * (8 / 10)
              else 8 / 10 + (1 - (t - 3 / 10) / (7 / 10)) * (2 / 10))"

definition updateKnockback :: "real \<Rightarrow> enemy \<Rightarrow> enemy" where
  \<comment> \<open>the block \<open>// Update knockback\<close> of \<open>Enemy.update\<close>\<close>
  "updateKnockback deltaTime e =
     (if isKnockedBack e then
        (let e1 = e\<lparr>knockbackTimer := knockbackTimer e + deltaTime\<rparr> in
         if knockbackTimer e1 \<ge> knockbackDuration e1
         then e1\<lparr>isKnockedBack := False, position := knockbackOrigin e1\<rparr>
         else
           let t = knockbackTimer e1 / knockbackDuration e1;
               eT = easeT t
           in if eT \<le> 1
              then e1\<lparr>position := lerpVectors (knockbackOrigin e1) (knockbackTarget e1) eT\<rparr>
              else e1\<lparr>position := lerpVectors (knockbackTarget e1) (knockbackOrigin e1) (eT - 1)\<rparr>)
      else e)"

definition updateScalePunch :: "real \<Rightarrow> enemy \<Rightarrow> enemy" where
  "updateScalePunch deltaTime e =
     (if scalePunchTimer e > 0 then
        (let e1 = e\<lparr>scalePunchTimer := scalePunchTimer e - deltaTime\<rparr> in
         if scalePunchTimer e1 \<le> 0 then e1\<lparr>scale := V3 1 1 1\<rparr>
         else
           let t = 1 - scalePunchTimer e1 / scalePunchDuration e1;
               m = (if t < 3 / 10 then 1 + (maxScalePunch e1 - 1) * (t / (3 / 10))
                    else maxScalePunch e1 - (maxScalePunch e1 - 1) * ((t - 3 / 10) / (7 / 10)))
           in e1\<lparr>scale := V3 m m 1\<rparr>)
      else e)"

subsection \<open>Taking damage\<close>

definition lightningGuard :: "shared \<Rightarrow> bool" where
  \<comment> \<open>\<open>!isPerformingLightningStrike || !isPerformingLightningStrike()\<close>; the method exists\<close>
  "lightningGuard sh = (\<not> cs_isLightningStriking (combatSystem sh))"

definition die :: "real \<Rightarrow> enemy \<times> shared \<Rightarrow> enemy \<times> shared" where
  \<comment> \<open>\<open>r\<close> is the draw for the health orb; the crystals are an effect outside the model\<close>
  "die r es =
     (case es of (e, sh) \<Rightarrow>
        if isDead e then (e, sh)
        else
          let sh1 = (if hasCombatSystem e \<and> cs_hasGame (combatSystem sh) \<and> lightningGuard sh
                     then freezeFrame (15 / 100) sh else sh);
              sh2 = (if r < 33 / 100 \<and> hasCombatSystem e \<and> cs_hasHealthOrbManager (combatSystem sh1)
                     then emit (EvHealthOrb (position e)) sh1 else sh1);
              e1 = e\<lparr>isDead := True, isPlaying := True, currentFrame := 0, elapsedTime := 0,
                     currentAnimation := NoAnimation\<rparr>;
              e2 = switchAnimation 0 Death e1
          in (e2\<lparr>healthBar := (healthBar e2)\<lparr>hb_visible := False\<rparr>\<rparr>, sh2))"

definition takeDamage :: "real \<Rightarrow> vec3 option \<Rightarrow> real \<Rightarrow> enemy \<times> shared \<Rightarrow> enemy \<times> shared" where
  "takeDamage amount attackerPosition r es =
     (case es of (e, sh) \<Rightarrow>
        if isDead e \<or> isHit e then (e, sh)
        else
          let e1 = e\<lparr>health := health e - amount\<rparr>;
              e2 = e1\<lparr>healthBar := setHealth (health e1) (maxHealth e1) True (healthBar e1)\<rparr>;
              e3 = (if hasTarget e2 \<and> (currentState e2 = PATROL \<or> currentState e2 = SEARCH
                                         \<or> currentState e2 = RETURN)
                    then e2\<lparr>currentState := CHASE, hasSeenPlayer := True,
                            lastKnownPlayerPosition := pl_position (thePlayer sh)\<rparr>
                    else e2);
              sh1 = (if hasCombatSystem e3 \<and> cs_hasGame (combatSystem sh) \<and> lightningGuard sh
                     then freezeFrame (6 / 100) sh else sh)
          in if health e3 \<le> 0 then die r (e3\<lparr>health := 0\<rparr>, sh1)
             else
               let e4 = switchAnimation 0 Hit e3;
                   e5 = (case attackerPosition of
                           None \<Rightarrow> e4
                         | Some p \<Rightarrow> applyKnockback p e4)
               in (e5\<lparr>scalePunchTimer := scalePunchDuration e5\<rparr>, sh1))"

subsection \<open>The attack animation\<close>

definition damageFrame :: "enemy \<Rightarrow> nat" where
  \<comment> \<open>\<open>Math.floor(this.totalFrames / 2)\<close>\<close>
  "damageFrame e = totalFrames e div 2"

definition telegraphFrame :: "enemy \<Rightarrow> int" where
  \<comment> \<open>\<open>Math.max(1, damageFrame - 2)\<close>\<close>
  "telegraphFrame e = max 1 (int (damageFrame e) - 2)"

definition dealDamage :: "rand \<Rightarrow> enemy \<Rightarrow> shared \<Rightarrow> shared" where
  \<comment> \<open>the block \<open>// Deal damage on the middle frame\<close>, entered with a target\<close>
  "dealDamage r e sh =
     (let distanceToTarget = distanceTo (position e) (pl_position (thePlayer sh)) in
      if isFireballCaster e \<and> hasFireballManager e then
        (let baseTargetPos = pl_position (thePlayer sh);
             randomAngle = r_angle r * (pi * 2);
             randomDistance = r_dist r * 3;
             randomOffset = V3 (cos randomAngle * randomDistance) 0 (sin randomAngle * randomDistance)
         in fst (launchFireball (addVec baseTargetPos randomOffset) sh))
      else if distanceToTarget \<le> attackRange e then
        (if pl_hasHurt (thePlayer sh) then
           (case hurt (thePlayer sh) of
              (p, success) \<Rightarrow>
                (let sh1 = sh\<lparr>thePlayer := p\<rparr>
                 in if success \<and> hasCombatSystem e
                    then fst (handlePlayerDamage (attackDamage e) sh1) else sh1))
         else sh)
      else sh)"

definition telegraphStep :: "enemy \<times> shared \<Rightarrow> enemy \<times> shared" where
  \<comment> \<open>the block \<open>// Create telegraph 2-3 frames before damage\<close>\<close>
  "telegraphStep es =
     (case es of (e1, sh) \<Rightarrow>
        if int (currentFrame e1) = telegraphFrame e1 \<and> \<not> telegraphCreated e1
        then (case (if \<not> isFireballCaster e1 then createAttackTelegraph (e1, sh)
                    else (e1, sh)) of
                (ea, sha) \<Rightarrow> (ea\<lparr>telegraphCreated := True\<rparr>, sha))
        else (e1, sh))"

definition damageStep :: "rand \<Rightarrow> enemy \<times> shared \<Rightarrow> shared" where
  \<comment> \<open>\<open>if (this.currentFrame === damageFrame && this.target)\<close>\<close>
  "damageStep r es =
     (case es of (e2, sh2) \<Rightarrow>
        if currentFrame e2 = damageFrame e2 \<and> hasTarget e2 then dealDamage r e2 sh2 else sh2)"

definition finishStep :: "enemy \<times> shared \<Rightarrow> enemy \<times> shared" where
  \<comment> \<open>\<open>if (this.currentFrame >= this.totalFrames)\<close>: the attack animation has finished\<close>
  "finishStep es =
     (case es of (e2, sh3) \<Rightarrow>
        if currentFrame e2 \<ge> totalFrames e2
        then (case removeAttackTelegraph
                     (e2\<lparr>currentFrame := 0, attackCooldown := attackCooldownDuration e2\<rparr>, sh3) of
                (e3, sh4) \<Rightarrow> ((switchAnimation 0 Walk e3)\<lparr>telegraphCreated := False\<rparr>, sh4))
        else (e2, sh3))"

definition attackFrame :: "rand \<Rightarrow> enemy \<times> shared \<Rightarrow> enemy \<times> shared" where
  \<comment> \<open>the branch \<open>currentAnimation === 'attack'\<close> of \<open>updateAnimation\<close>: the frame
      advances, then the three blocks in the order of the source\<close>
  "attackFrame r es =
     (case es of (e, sh) \<Rightarrow>
        let es2 = telegraphStep (e\<lparr>currentFrame := currentFrame e + 1\<rparr>, sh)
        in finishStep (fst es2, damageStep r es2))"

definition hitFrame :: "enemy \<Rightarrow> enemy" where
  "hitFrame e =
     (let e1 = e\<lparr>currentFrame := currentFrame e + 1\<rparr>
      in if currentFrame e1 \<ge> totalFrames e1
         then switchAnimation 0 Walk (e1\<lparr>currentFrame := 0\<rparr>) else e1)"

definition deathFrame :: "enemy \<Rightarrow> enemy" where
  "deathFrame e =
     (let e1 = e\<lparr>currentFrame := currentFrame e + 1\<rparr>
      in if currentFrame e1 \<ge> totalFrames e1 \<and> \<not> deathAnimationComplete e1
         then e1\<lparr>currentFrame := totalFrames e1 - 1, deathAnimationComplete := True\<rparr>
         else e1)"

definition updateAnimation :: "real \<Rightarrow> rand \<Rightarrow> enemy \<times> shared \<Rightarrow> enemy \<times> shared" where
  "updateAnimation deltaTime r es =
     (case es of (e, sh) \<Rightarrow>
        if (isDead e \<or> isPlaying e) \<and> totalFrames e > 1 then
          (let e1 = e\<lparr>elapsedTime := elapsedTime e + deltaTime\<rparr> in
           if elapsedTime e1 \<ge> frameTime e1 then
             (let e2 = e1\<lparr>elapsedTime := 0\<rparr>
              in case currentAnimation e2 of
                   Attack \<Rightarrow> attackFrame r (e2, sh)
                 | Hit \<Rightarrow> (hitFrame e2, sh)
                 | Death \<Rightarrow> (deathFrame e2, sh)
                 | _ \<Rightarrow> (e2\<lparr>currentFrame := (currentFrame e2 + 1) mod totalFrames e2\<rparr>, sh))
           else (e1, sh))
        else (e, sh))"

subsection \<open>Enemy.update\<close>

definition attackControl :: "rand \<Rightarrow> enemy \<Rightarrow> shared \<Rightarrow> enemy" where
  \<comment> \<open>the block \<open>// Handle attack state and attacking logic\<close>\<close>
  "attackControl r e sh =
     (if hasTarget e \<and> \<not> isHit e then
        (let distanceToTarget = distanceTo (position e) (pl_position (thePlayer sh));
             e1 = (if currentState e = ATTACK \<and> \<not> isAttacking e \<and> attackCooldown e \<le> 0
                   then switchAnimation (r_attack r) Attack (faceTarget e sh) else e)
         in if isAttacking e1 \<and> distanceToTarget > attackRange e1
            then switchAnimation 0 Walk
                   (if canSeePlayer e1 sh then e1\<lparr>currentState := CHASE\<rparr>
                    else e1\<lparr>currentState := SEARCH, searchTimer := 0\<rparr>)
            else e1)
      else e)"

definition afterAnimation :: "real \<Rightarrow> rand \<Rightarrow> enemy \<Rightarrow> shared \<Rightarrow> enemy" where
  \<comment> \<open>what \<open>update\<close> does after \<open>if (this.isDead) return;\<close>\<close>
  "afterAnimation deltaTime r e1 sh1 =
     (let e2 = (if attackCooldown e1 > 0
                then e1\<lparr>attackCooldown := attackCooldown e1 - deltaTime\<rparr> else e1);
          e3 = updateAI deltaTime (r_search r) e2 sh1;
          e4 = attackControl r e3 sh1;
          e5 = (if isAttacking e4 \<and> hasTarget e4 then faceTarget e4 sh1 else e4);
          e6 = (if \<not> isAttacking e5 \<and> \<not> isHit e5
                then updateMovementByState deltaTime e5 sh1 else e5);
          e7 = updateKnockback deltaTime e6
      in updateScalePunch deltaTime e7)"

definition update :: "real \<Rightarrow> rand \<Rightarrow> enemy \<times> shared \<Rightarrow> enemy \<times> shared" where
  "update deltaTime r es =
     (case es of (e, sh) \<Rightarrow>
        let e0 = e\<lparr>position := (position e)\<lparr>vy := baseY e\<rparr>,
                   healthBar := updateHealthBar deltaTime (healthBar e)\<rparr>
        in case updateAnimation deltaTime r (e0, sh) of
             (e1, sh1) \<Rightarrow>
               if isDead e1 then (e1, sh1) else (afterAnimation deltaTime r e1 sh1, sh1))"

section \<open>EnemyManager and the player's melee attack\<close>

fun em_loop :: "real \<Rightarrow> (nat \<Rightarrow> rand) \<Rightarrow> nat \<Rightarrow> enemy list \<times> shared \<Rightarrow> enemy list \<times> shared" where
  \<comment> \<open>the loop of \<open>EnemyManager.update\<close>, from the last index down to 0; \<open>rs i\<close> are the
      draws of the enemy at index \<open>i\<close>\<close>
  "em_loop deltaTime rs 0 ws = ws"
| "em_loop deltaTime rs (Suc i) ws =
     (case ws of (es, sh) \<Rightarrow>
        (case update deltaTime (rs i) (es ! i, sh) of
           (e, sh1) \<Rightarrow>
             em_loop deltaTime rs i
               (if isDead e \<and> deathAnimationComplete e
                then (take i es @ drop (Suc i) es, sh1)
                else (es[i := e], sh1))))"

definition enemyManager_update ::
  "real \<Rightarrow> (nat \<Rightarrow> rand) \<Rightarrow> enemy list \<times> shared \<Rightarrow> enemy list \<times> shared" where
  "enemyManager_update deltaTime rs ws = em_loop deltaTime rs (length (fst ws)) ws"

record hit =
  hit_enemy :: nat
  hit_distance :: real
  hit_died :: bool
  hit_damage :: real
  hit_isCritical :: bool

definition attackAngleTo :: "vec3 \<Rightarrow> vec3 \<Rightarrow> vec3 \<Rightarrow> real" where
  \<comment> \<open>the angle, in radians, between the attack direction and the direction to the enemy\<close>
  "attackAngleTo playerPosition attackDirection enemyPosition =
     arccos (clamp_unit (dot (normalize (flat (subVectors enemyPosition playerPosition)))
                             attackDirection))"

definition inAttackCone :: "vec3 \<Rightarrow> vec3 \<Rightarrow> real \<Rightarrow> real \<Rightarrow> enemy \<Rightarrow> bool" where
  \<comment> \<open>the three nested tests of \<open>handlePlayerAttack\<close>\<close>
  "inAttackCone playerPosition attackDirection rnge angleInDegrees e =
     (\<not> isDead e
      \<and> vlength (flat (subVectors (position e) playerPosition)) \<le> rnge
      \<and> attackAngleTo playerPosition attackDirection (position e)
           \<le> (angleInDegrees * pi) / 180 / 2)"

definition hpa_visit ::
  "vec3 \<Rightarrow> vec3 \<Rightarrow> real \<Rightarrow> real \<Rightarrow> (real \<times> bool) option \<Rightarrow> real \<Rightarrow> enemy \<Rightarrow> nat
   \<Rightarrow> (enemy list \<times> shared) \<times> hit list \<Rightarrow> (enemy list \<times> shared) \<times> hit list" where
  \<comment> \<open>the callback of \<open>this.enemies.forEach\<close> in \<open>handlePlayerAttack\<close>, for the enemy \<open>e\<close>
      at index \<open>i\<close>; \<open>r\<close> is the draw its death would make\<close>
  "hpa_visit playerPosition attackDirection rnge angleInDegrees damageInfo r e i acc =
     (case acc of ((es, sh), hits) \<Rightarrow>
        if inAttackCone playerPosition attackDirection rnge angleInDegrees e
        then (let damage = (case damageInfo of None \<Rightarrow> 1 | Some (d, c) \<Rightarrow> d);
                  distance = vlength (flat (subVectors (position e) playerPosition))
              in case takeDamage damage (Some playerPosition) r (e, sh) of
                   (e1, sh1) \<Rightarrow>
                     ((es[i := e1], sh1),
                      hits @ [\<lparr>hit_enemy = i, hit_distance = distance, hit_died = isDead e1,
                               hit_damage = damage,
                               hit_isCritical = (case damageInfo of None \<Rightarrow> False
                                                 | Some (d, c) \<Rightarrow> c)\<rparr>]))
        else acc)"

fun hpa_loop ::
  "vec3 \<Rightarrow> vec3 \<Rightarrow> real \<Rightarrow> real \<Rightarrow> (real \<times> bool) option \<Rightarrow> (nat \<Rightarrow> real)
   \<Rightarrow> enemy list \<Rightarrow> nat \<Rightarrow> (enemy list \<times> shared) \<times> hit list \<Rightarrow> (enemy list \<times> shared) \<times> hit list" where
  \<comment> \<open>the \<open>forEach\<close>: \<open>todo\<close> are the enemies not yet visited, \<open>i\<close> the index of the first\<close>
  "hpa_loop playerPosition attackDirection rnge angleInDegrees damageInfo rs [] i acc = acc"
| "hpa_loop playerPosition attackDirection rnge angleInDegrees damageInfo rs (e # todo) i acc =
     hpa_loop playerPosition attackDirection rnge angleInDegrees damageInfo rs todo (Suc i)
       (hpa_visit playerPosition attackDirection rnge angleInDegrees damageInfo (rs i) e i acc)"

definition handlePlayerAttack ::
  "vec3 \<Rightarrow> vec3 \<Rightarrow> real \<Rightarrow> real \<Rightarrow> (real \<times> bool) option \<Rightarrow> (nat \<Rightarrow> real)
   \<Rightarrow> enemy list \<times> shared \<Rightarrow> (enemy list \<times> shared) \<times> hit list" where
  "handlePlayerAttack playerPosition attackDirection rnge angleInDegrees damageInfo rs ws =
     hpa_loop playerPosition attackDirection rnge angleInDegrees damageInfo rs
       (fst ws) 0 (ws, [])"

section \<open>The game loop\<close>

record game =
  enemies :: "enemy list"
  world :: shared
  hasEnemyManager :: bool
  hasCombatSystemG :: bool
  hasFireballManagerG :: bool
  hasTelegraphManagerG :: bool

definition followPosition :: "enemy list \<Rightarrow> nat \<Rightarrow> vec3 option" where
  \<comment> \<open>\<open>followTarget.position\<close>, read through the identity of the enemy\<close>
  "followPosition es i = map_option position (find (\<lambda>e. eid e = i) es)"

definition game_update :: "real \<Rightarrow> (nat \<Rightarrow> rand) \<Rightarrow> game \<Rightarrow> game" where
  \<comment> \<open>\<open>CatQuestGame.update\<close>: the freeze gate, then the managers of the model in the order
      of the source; the player controller, the camera and the effects are outside it\<close>
  "game_update deltaTime rs g =
     (if freezeTime (world g) > 0
      then g\<lparr>world := (world g)\<lparr>freezeTime := freezeTime (world g) - deltaTime\<rparr>\<rparr>
      else
        let g1 = (if hasEnemyManager g
                  then (case enemyManager_update deltaTime rs (enemies g, world g) of
                          (es, sh) \<Rightarrow> g\<lparr>enemies := es, world := sh\<rparr>)
                  else g);
            g2 = (if hasCombatSystemG g1
                  then g1\<lparr>world := (world g1)\<lparr>combatSystem :=
                                      combat_update deltaTime (combatSystem (world g1))\<rparr>\<rparr>
                  else g1);
            g3 = (if hasFireballManagerG g2
                  then g2\<lparr>world := fireballManager_update deltaTime (world g2)\<rparr> else g2)
        in if hasTelegraphManagerG g3
           then g3\<lparr>world := telegraphManager_update (followPosition (enemies g3)) deltaTime (world g3)\<rparr>
           else g3)"

section \<open>CombatSystem.triggerAttack\<close>

definition onSuccessfulHit :: "hit list \<Rightarrow> shared \<Rightarrow> shared" where
  \<comment> \<open>the hit-stop of \<open>onSuccessfulHit\<close>; the rest of the method is visual feedback\<close>
  "onSuccessfulHit hits sh =
     (if cs_hasGame (combatSystem sh)
      then (let hasCritical = (\<exists>h \<in> set hits. hit_isCritical h);
                freezeDuration = (if hasCritical then 18 / 100
                                  else if length hits > 2 then 15 / 100 else 12 / 100)
            in freezeFrame freezeDuration sh)
      else sh)"

definition triggerAttack ::
  "vec3 \<Rightarrow> real \<Rightarrow> real \<Rightarrow> (nat \<Rightarrow> real) \<Rightarrow> game \<Rightarrow> game \<times> hit list \<times> bool" where
  \<comment> \<open>\<open>lastDirection\<close> is \<open>playerController.getLastDirection()\<close>, \<open>r1\<close> and \<open>r2\<close> the draws
      of \<open>calculateDamage\<close>; the second component is the list handed to \<open>onSuccessfulHit\<close>\<close>
  "triggerAttack lastDirection r1 r2 rs g =
     (let cs = combatSystem (world g) in
      if cs_attackCooldown cs > 0 \<or> cs_isAttacking cs then (g, [], False)
      else
        let playerPos = pl_position (thePlayer (world g));
            attackDir = normalize (flat lastDirection);
            damageInfo = calculateDamage (cs_baseDamage cs) (cs_damageVariance cs)
                           (cs_criticalChance cs) (cs_criticalMultiplier cs) r1 r2;
            res = handlePlayerAttack playerPos attackDir (cs_attackRange cs) (cs_attackAngle cs)
                    (Some (real_of_int (fst damageInfo), snd damageInfo)) rs (enemies g, world g);
            hits = sort_key hit_distance (snd res);
            sh1 = (if length hits > 0 then onSuccessfulHit hits (snd (fst res)) else snd (fst res));
            cs1 = combatSystem sh1
        in (g\<lparr>enemies := fst (fst res),
               world := sh1\<lparr>combatSystem := cs1\<lparr>cs_isAttacking := True,
                                   cs_attackTimer := cs_attackDuration cs1,
                                   cs_attackCooldown := cs_attackCooldownDuration cs1\<rparr>\<rparr>\<rparr>,
            hits, True))"

section \<open>Initial objects\<close>

definition newEnemy :: enemy where
  \<comment> \<open>the constructor with its defaults, as \<open>spawnEnemy\<close> calls it (8 fps) and wires it,
      for sprite sheets of 8 walk, 9 attack, 3 hit and 10 death frames\<close>
  "newEnemy =
     \<lparr>eid = 0, fps = 8, frameTime = 1 / 8, currentFrame = 0, elapsedTime = 0, totalFrames = 8,
      isPlaying = True, currentAnimation = Walk, walkFrames = 8, attackFramesList = [9, 9, 9],
      currentAttackIndex = 0, hitFrames = 3, hitAnimationSpeed = 24, deathFrames = 10,
      deathAnimationSpeed = 20, deathAnimationComplete = False,
      position = V3 0 (7 / 10) 0, baseY = 7 / 10, moveSpeed = 2, currentDirection = 1,
      patrolCenter = V3 0 0 0, patrolRadius = 5, patrolAngle = 0, currentState = PATROL,
      detectionRange = 8, loseTargetRange = 12, visionAngle = 120, detectionTimer = 0,
      detectionInterval = 2 / 10, chaseSpeed = 5 / 2, lastKnownPlayerPosition = V3 0 0 0,
      hasSeenPlayer = False, searchTimer = 0, searchDuration = 5, searchRadius = 3,
      searchAngle = 0, returnSpeed = 3 / 2, returnTolerance = 1, maxHealth = 50, health = 50,
      isDead = False,
      healthBar = \<lparr>hb_currentHealth = 50, hb_maxHealth = 50, hb_visible = False,
                    hb_hideTimer = 0, hb_hideDelay = 3\<rparr>,
      attackRange = 2, attackDamage = 1, attackCooldown = 0, attackCooldownDuration = 2,
      isAttacking = False, hasTarget = True, hasCombatSystem = True,
      hasTelegraphManager = True, hasFireballManager = True, isFireballCaster = False,
      currentTelegraph = None, telegraphCreated = False, isHit = False,
      isKnockedBack = False, knockbackTimer = 0, knockbackDuration = 3 / 10,
      knockbackDistance = 6 / 10, knockbackOrigin = V3 0 0 0, knockbackTarget = V3 0 0 0,
      scalePunchTimer = 0, scalePunchDuration = 2 / 10, maxScalePunch = 12 / 10,
      scale = V3 1 1 1\<rparr>"

definition newCombatSystem :: combat where
  "newCombatSystem =
     \<lparr>cs_hasGame = True, cs_hasPlayerController = True, cs_hasHealthOrbManager = True,
      cs_attackRange = 5 / 2, cs_attackAngle = 90, cs_attackCooldown = 0,
      cs_attackCooldownDuration = 3 / 10, cs_lightningStrikeCooldown = 0,
      cs_isLightningStriking = False, cs_baseDamage = 10, cs_damageVariance = 2 / 10,
      cs_criticalChance = 15 / 100, cs_criticalMultiplier = 2, cs_playerHealth = 5,
      cs_playerMaxHealth = 5, cs_playerInvulnerable = False, cs_invulnerabilityDuration = 1,
      cs_invulnerabilityTimer = 0, cs_isAttacking = False, cs_attackTimer = 0,
      cs_attackDuration = 3 / 10\<rparr>"

definition newShared :: "vec3 \<Rightarrow> shared" where
  \<comment> \<open>the objects after \<open>init\<close>, before the fireball pool is filled; the player stands at
      the given position\<close>
  "newShared playerPos =
     \<lparr>freezeTime = 0, freezeDuration = 0,
      thePlayer = \<lparr>pl_position = playerPos, pl_hasHurt = True, pl_isHurt = False,
                    pl_isAttacking = False\<rparr>,
      combatSystem = newCombatSystem, telegraphObjs = [], activeTelegraphs = [],
      fireballObjs = [], fireballPool = [], activeFireballs = [],
      fm_hasCombatSystem = True, fm_hasTelegraphManager = True, pendingTelegraphs = [],
      eventLog = []\<rparr>"

definition newGame :: "enemy list \<Rightarrow> shared \<Rightarrow> game" where
  "newGame es sh = \<lparr>enemies = es, world = sh, hasEnemyManager = True, hasCombatSystemG = True,
                     hasFireballManagerG = True, hasTelegraphManagerG = True\<rparr>"

definition noRand :: rand where
  "noRand = \<lparr>r_attack = 0, r_angle = 0, r_dist = 0, r_search = 0, r_orb = 1 / 2\<rparr>"

section \<open>Runs of the game loop and definitions that follow the specification\<close>

fun game_run :: "(real \<times> (nat \<Rightarrow> rand)) list \<Rightarrow> game \<Rightarrow> game" where
  \<comment> \<open>a sequence of calls of \<open>CatQuestGame.update\<close>, each with its \<open>deltaTime\<close> and draws\<close>
  "game_run [] g = g"
| "game_run ((deltaTime, rs) # ins) g = game_run ins (game_update deltaTime rs g)"

fun frozen_throughout :: "real \<Rightarrow> real list \<Rightarrow> bool" where
  \<comment> \<open>the freeze that starts with \<open>ft\<close> seconds left is still active before each of the
      calls with the given \<open>deltaTime\<close>s\<close>
  "frozen_throughout ft [] = True"
| "frozen_throughout ft (d # ds) = (ft > 0 \<and> frozen_throughout (ft - d) ds)"

definition spec_forward :: "enemy \<Rightarrow> vec3" where
  \<comment> \<open>the specification's forward vector: the tangent of the patrol loop
      \<open>center + radius * (cos a, sin a)\<close> while patrolling, the facing axis otherwise\<close>
  "spec_forward e =
     (if currentState e = PATROL then V3 (- sin (patrolAngle e)) 0 (cos (patrolAngle e))
      else V3 (currentDirection e) 0 0)"

definition spec_canSeeTarget :: "enemy \<Rightarrow> vec3 option \<Rightarrow> bool" where
  \<comment> \<open>\<open>canSeeTarget\<close> in the words of the specification; \<open>None\<close> is a missing target\<close>
  "spec_canSeeTarget e target =
     (case target of
        None \<Rightarrow> False
      | Some targetPosition \<Rightarrow>
          if distanceTo (position e) targetPosition > detectionRange e then False
          else arccos (clamp_unit (dot (normalize (flat (subVectors targetPosition (position e))))
                                        (spec_forward e))) * (180 / pi)
               \<le> visionAngle e / 2)"

definition fireballInFlight :: "vec3 \<Rightarrow> bool \<Rightarrow> shared" where
  \<comment> \<open>a pool of one fireball, launched at the origin, with the player at the given
      position, invulnerable or not\<close>
  "fireballInFlight playerPos invulnerable =
     fst (launchFireball (V3 0 0 0)
            (initialize 1 True
               ((newShared playerPos)
                  \<lparr>combatSystem := newCombatSystem\<lparr>cs_playerInvulnerable := invulnerable\<rparr>\<rparr>)))"

text \<open>The fireball manager under arbitrary use.\<close>

datatype fm_op = Launch vec3 | Tick real | FireTimer nat

definition fm_step :: "fm_op \<Rightarrow> shared \<Rightarrow> shared" where
  \<comment> \<open>what can happen to the fireball manager: a launch request, a call of its \<open>update\<close>,
      the firing of a pending telegraph timer\<close>
  "fm_step op sh =
     (case op of
        Launch p \<Rightarrow> fst (launchFireball p sh)
      | Tick deltaTime \<Rightarrow> fireballManager_update deltaTime sh
      | FireTimer k \<Rightarrow>
          (if k < length (pendingTelegraphs sh)
           then (case pendingTelegraphs sh ! k of
                   (fid, delay, duration) \<Rightarrow>
                     fireballTelegraphCallback fid duration
                       (sh\<lparr>pendingTelegraphs := take k (pendingTelegraphs sh) @ drop (Suc k) (pendingTelegraphs sh)\<rparr>))
           else sh))"

fun fm_run :: "fm_op list \<Rightarrow> shared \<Rightarrow> shared" where
  "fm_run [] sh = sh"
| "fm_run (op # ops) sh = fm_run ops (fm_step op sh)"

definition pool_ok :: "nat \<Rightarrow> nat set \<Rightarrow> shared \<Rightarrow> bool" where
  \<comment> \<open>the invariant of the pool of \<open>n\<close> fireballs; the fireballs in \<open>X\<close> are in the middle
      of a method and need not be active\<close>
  "pool_ok n X sh =
     (length (fireballObjs sh) = n
      \<and> distinct (fireballPool sh @ activeFireballs sh)
      \<and> set (fireballPool sh) \<union> set (activeFireballs sh) = {..<n}
      \<and> (\<forall>fid < n. fb_hasManager (fireballObjs sh ! fid))
      \<and> (\<forall>fid \<in> set (activeFireballs sh). fid \<notin> X \<longrightarrow>
            fb_isActive (fireballObjs sh ! fid) \<and> \<not> fb_hasExploded (fireballObjs sh ! fid))
      \<and> (\<forall>t \<in> set (pendingTelegraphs sh). fst t < n))"

definition emptyPoolShared :: shared where
  \<comment> \<open>the objects before the pool is filled, the player at \<open>(5, 0, 0)\<close>\<close>
  "emptyPoolShared = (newShared (V3 5 0 0))\<lparr>combatSystem := newCombatSystem\<lparr>cs_playerInvulnerable := False\<rparr>\<rparr>"

definition damagedHealth :: "real \<Rightarrow> real \<Rightarrow> real" where
  \<comment> \<open>the health after a blow that is taken: reduced, and 0 when that is not positive\<close>
  "damagedHealth h d = (if h - d \<le> 0 then 0 else h - d)"

text \<open>What a player attack leaves of the health of one enemy, and the damage it carries.\<close>

definition hitHealth :: "vec3 \<Rightarrow> vec3 \<Rightarrow> real \<Rightarrow> real \<Rightarrow> real \<Rightarrow> enemy \<Rightarrow> real" where
  "hitHealth P D R A dmg e =
     (if inAttackCone P D R A e \<and> \<not> isHit e then damagedHealth (health e) dmg else health e)"

definition damageOf :: "(real \<times> bool) option \<Rightarrow> real" where
  "damageOf di = (case di of None \<Rightarrow> 1 | Some (d, c) \<Rightarrow> d)"

definition hit_summary :: "hit \<Rightarrow> nat \<times> real \<times> real" where
  \<comment> \<open>which enemy was hit, at what distance, with what damage\<close>
  "hit_summary h = (hit_enemy h, hit_distance h, hit_damage h)"

definition coneHits ::
  "vec3 \<Rightarrow> vec3 \<Rightarrow> real \<Rightarrow> real \<Rightarrow> real \<Rightarrow> enemy list \<Rightarrow> nat list \<Rightarrow> (nat \<times> real \<times> real) list" where
  \<comment> \<open>of the enemies at the indices \<open>js\<close>, those the three tests select, each with its
      horizontal distance from the origin of the attack and the damage\<close>
  "coneHits P D R A dmg es js =
     map (\<lambda>j. (j, vlength (flat (subVectors (position (es ! j)) P)), dmg))
       (filter (\<lambda>j. inAttackCone P D R A (es ! j)) js)"

definition sampleEnemies :: "enemy list" where
  \<comment> \<open>seen from a player at \<open>(-1, 0.7, 0)\<close> who attacks along \<open>+x\<close> with range 2.5 and a
      cone of 90 degrees: one unit ahead; half a unit ahead, in its hit reaction; four units
      ahead; one unit ahead but dead; one unit to the side\<close>
  "sampleEnemies = [newEnemy, newEnemy\<lparr>isHit := True, position := V3 (- 1 / 2) (7 / 10) 0\<rparr>,
                    newEnemy\<lparr>position := V3 3 (7 / 10) 0\<rparr>, newEnemy\<lparr>isDead := True\<rparr>,
                    newEnemy\<lparr>position := V3 (- 1) (7 / 10) 1\<rparr>]"

definition sampleAttack :: "(enemy list \<times> shared) \<times> hit list" where
  "sampleAttack = handlePlayerAttack (V3 (- 1) (7 / 10) 0) (V3 1 0 0) (5 / 2) 90 (Some (10, False))
                    (\<lambda>i. 1 / 2) (sampleEnemies, newShared (V3 (- 1) (7 / 10) 0))"

text \<open>
  The animation frames as the browser runs them. \<open>gameLoop\<close> hands to \<open>update\<close> the time that
  has passed on the wall clock since the previous frame (\<open>clock.getDelta()\<close>); in that time
  the \<open>setTimeout\<close> callbacks that have come due have run.
\<close>

definition wallClock :: "real \<Rightarrow> shared \<Rightarrow> shared" where
  \<comment> \<open>\<open>dt\<close> seconds pass: the pending callbacks whose delay has run out are called, the
      earliest first, and the others have that much less to wait\<close>
  "wallClock dt sh =
     (let due = sort_key (\<lambda>t. fst (snd t)) (filter (\<lambda>t. fst (snd t) \<le> dt) (pendingTelegraphs sh));
          waiting = map (\<lambda>t. (fst t, fst (snd t) - dt, snd (snd t)))
                      (filter (\<lambda>t. \<not> fst (snd t) \<le> dt) (pendingTelegraphs sh))
      in fold (\<lambda>t. fireballTelegraphCallback (fst t) (snd (snd t))) due
           (sh\<lparr>pendingTelegraphs := waiting\<rparr>))"

definition gameLoop :: "real \<Rightarrow> (nat \<Rightarrow> rand) \<Rightarrow> game \<Rightarrow> game" where
  \<comment> \<open>one animation frame, \<open>deltaTime\<close> seconds after the previous one\<close>
  "gameLoop deltaTime rs g = game_update deltaTime rs (g\<lparr>world := wallClock deltaTime (world g)\<rparr>)"

fun loop_run :: "(real \<times> (nat \<Rightarrow> rand)) list \<Rightarrow> game \<Rightarrow> game" where
  "loop_run [] g = g"
| "loop_run ((deltaTime, rs) # ins) g = loop_run ins (gameLoop deltaTime rs g)"

definition noRands :: "nat \<Rightarrow> rand" where
  "noRands i = noRand"

definition frozenFireballGame :: game where
  \<comment> \<open>a fireball launched at the origin, the player out of its reach; 4.45 seconds later,
      0.05 seconds before the telegraph of the fireball is due, a hit freezes the game for
      0.18 seconds\<close>
  "frozenFireballGame =
     (let g = loop_run [(4, noRands), (9 / 20, noRands)]
                (newGame [] (fireballInFlight (V3 5 0 0) False))
      in g\<lparr>world := freezeFrame (18 / 100) (world g)\<rparr>)"

definition thawedFireballGame :: game where
  \<comment> \<open>two frames later, 0.1 seconds each: the freeze has run out\<close>
  "thawedFireballGame = loop_run [(1 / 10, noRands), (1 / 10, noRands)] frozenFireballGame"

definition frozenChaseGame :: game where
  \<comment> \<open>an enemy that chases the player, 0.1 seconds of freeze left\<close>
  "frozenChaseGame = newGame [newEnemy\<lparr>currentState := CHASE, attackCooldown := 1\<rparr>]
                       (freezeFrame (1 / 10) (newShared (V3 3 0 0)))"

section \<open>The damage roll\<close>

lemma calculateDamage_base_roll:
  assumes "0 \<le> r1" "r1 < 1"
  shows "8 \<le> js_round (10 * (1 + (r1 - 1 / 2) * 2 * (2 / 10)))"
    and "js_round (10 * (1 + (r1 - 1 / 2) * 2 * (2 / 10))) \<le> 12"
proof -
  have eq: "10 * (1 + (r1 - 1 / 2) * 2 * (2 / 10)) = 8 + 4 * r1"
    by (simp add: algebra_simps)
  have "8 \<le> \<lfloor>8 + 4 * r1 + 1 / 2\<rfloor>"
    using assms by (intro le_floor_iff[THEN iffD2]) simp
  then show "8 \<le> js_round (10 * (1 + (r1 - 1 / 2) * 2 * (2 / 10)))"
    by (simp only: js_round_def eq)
  have "\<lfloor>8 + 4 * r1 + 1 / 2\<rfloor> < 13"
    using assms by (intro floor_less_iff[THEN iffD2]) simp
  then show "js_round (10 * (1 + (r1 - 1 / 2) * 2 * (2 / 10))) \<le> 12"
    by (simp only: js_round_def eq)
qed

lemma js_round_of_int: "js_round (real_of_int k) = k"
  unfolding js_round_def by linarith

text \<open>
  C7. With base 10, variance 0.2, critical chance 0.15 and multiplier 2.0, whatever the two
  random draws in \<open>[0, 1)\<close> are, the rolled amount is an integer between 8 and 12 when the
  roll is not critical and between 16 and 24 when it is.
\<close>

theorem C7_damage_roll_range:
  assumes "0 \<le> r1" "r1 < 1" "0 \<le> r2" "r2 < 1"
  shows "case calculateDamage 10 (2 / 10) (15 / 100) 2 r1 r2 of
           (amount, isCritical) \<Rightarrow>
             (if isCritical then 16 \<le> amount \<and> amount \<le> 24
              else 8 \<le> amount \<and> amount \<le> 12)"
proof -
  let ?d = "js_round (10 * (1 + (r1 - 1 / 2) * 2 * (2 / 10)))"
  have lo: "8 \<le> ?d" and hi: "?d \<le> 12"
    using calculateDamage_base_roll[OF assms(1,2)] by blast+
  have dbl: "js_round (real_of_int ?d * 2) = 2 * ?d"
    using js_round_of_int[of "2 * ?d"] by (simp add: mult.commute)
  show ?thesis
    using lo hi dbl by (simp add: calculateDamage_def Let_def)
qed

theorem C7_damage_roll_range_witness:
  "calculateDamage 10 (2 / 10) (15 / 100) 2 (3 / 4) (1 / 10) = (22, True)
   \<and> calculateDamage 10 (2 / 10) (15 / 100) 2 0 (1 / 2) = (8, False)"
proof -
  have a: "case calculateDamage 10 (2 / 10) (15 / 100) 2 (3 / 4) (1 / 10) of
           (amount, isCritical) \<Rightarrow>
             (if isCritical then 16 \<le> amount \<and> amount \<le> 24
              else 8 \<le> amount \<and> amount \<le> 12)"
    using C7_damage_roll_range[of "3 / 4" "1 / 10"] by simp
  have r: "js_round (10 * (1 + (3 / 4 - 1 / 2) * 2 * (2 / 10))) = 11"
    unfolding js_round_def by (simp add: floor_eq_iff)
  have r2: "js_round (real_of_int 11 * 2) = 22"
    using js_round_of_int[of 22] by simp
  have r3: "js_round (10 * (1 + (0 - 1 / 2) * 2 * (2 / 10))) = 8"
    unfolding js_round_def by (simp add: floor_eq_iff)
  show ?thesis
    using a r r2 r3 by (simp add: calculateDamage_def Let_def)
qed


section \<open>Damage during the hit reaction\<close>

text \<open>
  C10. \<open>Enemy.takeDamage\<close> does nothing while the enemy is dead or plays its hit
  reaction: the enemy and every object it can reach come back unchanged, so the health is
  not reduced, the state is not forced to \<open>CHASE\<close>, no knockback starts and the enemy
  cannot die from that blow.
\<close>

theorem C10_takeDamage_noop_while_hit:
  "isDead e \<or> isHit e \<Longrightarrow> takeDamage amount attackerPosition r (e, sh) = (e, sh)"
  by (simp add: takeDamage_def)

theorem C10_takeDamage_noop_while_hit_witness:
  "takeDamage 100 (Some (V3 1 0 0)) 0
     (newEnemy\<lparr>isHit := True, health := 5\<rparr>, newShared (V3 1 0 0))
   = (newEnemy\<lparr>isHit := True, health := 5\<rparr>, newShared (V3 1 0 0))"
  using C10_takeDamage_noop_while_hit[of "newEnemy\<lparr>isHit := True, health := 5\<rparr>"]
  by (simp add: newEnemy_def)

lemma takeDamage_kills_outside_hit_reaction:
  "isDead (fst (takeDamage 100 (Some (V3 1 0 0)) 0 (newEnemy\<lparr>health := 5\<rparr>, newShared (V3 1 0 0))))"
  by (simp add: takeDamage_def newEnemy_def newShared_def newCombatSystem_def lightningGuard_def
      die_def setHealth_def freezeFrame_def switchAnimation_def Let_def)

section \<open>The freeze gate\<close>

lemma frozen_run:
  "frozen_throughout (freezeTime (world g)) (map fst ins) \<Longrightarrow>
   game_run ins g
     = g\<lparr>world := (world g)\<lparr>freezeTime := freezeTime (world g) - sum_list (map fst ins)\<rparr>\<rparr>"
proof (induction ins arbitrary: g)
  case Nil
  then show ?case by simp
next
  case (Cons a ins)
  obtain dt rs where a: "a = (dt, rs)" by (cases a)
  from Cons.prems a have pos: "freezeTime (world g) > 0"
    and rest: "frozen_throughout (freezeTime (world g) - dt) (map fst ins)" by simp_all
  let ?g1 = "g\<lparr>world := (world g)\<lparr>freezeTime := freezeTime (world g) - dt\<rparr>\<rparr>"
  have step: "game_update dt rs g = ?g1" using pos by (simp add: game_update_def)
  have "frozen_throughout (freezeTime (world ?g1)) (map fst ins)" using rest by simp
  from Cons.IH[OF this] show ?case using a step by (simp add: algebra_simps)
qed

lemma game_run_append: "game_run (xs @ ys) g = game_run ys (game_run xs g)"
  by (induction xs arbitrary: g) auto

text \<open>
  C9, as the code has it. While the freeze is active, a call of \<open>update\<close> changes the
  freeze countdown and nothing else: every enemy, telegraph, fireball and cooldown is the
  same object state after the call as before it. Over any sequence of calls made while the
  freeze lasts, the state at the end is the state at the start with the countdown reduced by
  the time passed. Once the countdown has run out, the next call hands to the enemies, the
  combat system, the fireballs and the telegraphs its own \<open>deltaTime\<close> and nothing more, on
  the values they had when the freeze began: no time of the freeze is caught up.
\<close>

theorem C9_freeze_changes_only_countdown:
  assumes "frozen_throughout (freezeTime (world g)) (map fst ins)"
  shows "game_run ins g
           = g\<lparr>world := (world g)\<lparr>freezeTime := freezeTime (world g) - sum_list (map fst ins)\<rparr>\<rparr>
         \<and> (freezeTime (world g) - sum_list (map fst ins) \<le> 0
              \<and> hasEnemyManager g \<and> hasCombatSystemG g \<and> hasFireballManagerG g
              \<and> hasTelegraphManagerG g \<longrightarrow>
            game_run (ins @ [(deltaTime, rs)]) g
              = (case enemyManager_update deltaTime rs
                        (enemies g,
                         (world g)\<lparr>freezeTime := freezeTime (world g) - sum_list (map fst ins)\<rparr>) of
                   (es, sh) \<Rightarrow>
                     g\<lparr>enemies := es,
                       world := telegraphManager_update (followPosition es) deltaTime
                                  (fireballManager_update deltaTime
                                     (sh\<lparr>combatSystem := combat_update deltaTime (combatSystem sh)\<rparr>))\<rparr>))"
proof -
  let ?g' = "g\<lparr>world := (world g)\<lparr>freezeTime := freezeTime (world g) - sum_list (map fst ins)\<rparr>\<rparr>"
  have run: "game_run ins g = ?g'" by (rule frozen_run[OF assms])
  have "game_run (ins @ [(deltaTime, rs)]) g = game_update deltaTime rs ?g'"
    by (simp add: game_run_append run)
  then show ?thesis using run
    by (simp add: game_update_def Let_def case_prod_beta)
qed


lemma sqrt_9: "sqrt 9 = 3" using real_sqrt_abs[of 3] by simp

lemmas chase_eval_defs =
  enemyManager_update_def em_loop.simps update_def afterAnimation_def updateAnimation_def
  updateAI_def attackControl_def updateMovementByState_def chaseBehavior_def moveToward_def
  normalize_def multiplyScalar_def addVec_def updateKnockback_def updateScalePunch_def
  updateHealthBar_def subVectors_def vlength_def flat_def V3_def
  combat_update_def fireballManager_update_def fm_forEach.simps telegraphManager_update_def
  cleanupCancelled_def tm_loop.simps
  newEnemy_def newShared_def newCombatSystem_def newGame_def noRand_def noRands_def freezeFrame_def
  Let_def sqrt_9

theorem C9_freeze_changes_only_countdown_witness:
  "game_run [(1 / 20, noRands), (1 / 25, noRands), (1 / 20, noRands)] frozenChaseGame
     = frozenChaseGame\<lparr>world := (world frozenChaseGame)\<lparr>freezeTime := - (1 / 25)\<rparr>\<rparr>
   \<and> attackCooldown (enemies frozenChaseGame ! 0) = 1
   \<and> attackCooldown (enemies (game_run [(1 / 20, noRands), (1 / 25, noRands), (1 / 20, noRands),
                                           (1 / 8, noRands)] frozenChaseGame) ! 0) = 7 / 8
   \<and> detectionTimer (enemies (game_run [(1 / 20, noRands), (1 / 25, noRands), (1 / 20, noRands),
                                           (1 / 8, noRands)] frozenChaseGame) ! 0) = 1 / 8
   \<and> position (enemies (game_run [(1 / 20, noRands), (1 / 25, noRands), (1 / 20, noRands),
                                     (1 / 8, noRands)] frozenChaseGame) ! 0) = V3 (5 / 16) (7 / 10) 0"
proof -
  define ins :: "(real \<times> (nat \<Rightarrow> rand)) list"
    where "ins = [(1 / 20, noRands), (1 / 25, noRands), (1 / 20, noRands)]"
  have fr: "frozen_throughout (freezeTime (world frozenChaseGame)) (map fst ins)"
    by (simp add: ins_def frozenChaseGame_def newGame_def freezeFrame_def)
  have left: "freezeTime (world frozenChaseGame) - sum_list (map fst ins) = - (1 / 25)"
    by (simp add: ins_def frozenChaseGame_def newGame_def freezeFrame_def)
  have hyp: "freezeTime (world frozenChaseGame) - sum_list (map fst ins) \<le> 0
             \<and> hasEnemyManager frozenChaseGame \<and> hasCombatSystemG frozenChaseGame
             \<and> hasFireballManagerG frozenChaseGame \<and> hasTelegraphManagerG frozenChaseGame"
    by (simp add: left) (simp add: frozenChaseGame_def newGame_def)
  have app: "ins @ [(1 / 8, noRands)]
               = [(1 / 20, noRands), (1 / 25, noRands), (1 / 20, noRands), (1 / 8, noRands)]"
    by (simp add: ins_def)
  note t = C9_freeze_changes_only_countdown[OF fr, of "1 / 8" noRands]
  note a = t[THEN conjunct1, unfolded left, unfolded ins_def]
  note b = t[THEN conjunct2, rule_format, OF hyp, unfolded left app]
  have e: "enemies (game_run [(1 / 20, noRands), (1 / 25, noRands), (1 / 20, noRands), (1 / 8, noRands)]
                      frozenChaseGame)
             = fst (enemyManager_update (1 / 8) noRands
                      (enemies frozenChaseGame,
                       (world frozenChaseGame)\<lparr>freezeTime := - (1 / 25)\<rparr>))"
    unfolding b by (simp add: case_prod_beta)
  have c: "attackCooldown (enemies frozenChaseGame ! 0) = 1"
    by (simp add: frozenChaseGame_def newGame_def)
  have d: "attackCooldown (enemies (game_run [(1 / 20, noRands), (1 / 25, noRands), (1 / 20, noRands),
                                           (1 / 8, noRands)] frozenChaseGame) ! 0) = 7 / 8
   \<and> detectionTimer (enemies (game_run [(1 / 20, noRands), (1 / 25, noRands), (1 / 20, noRands),
                                           (1 / 8, noRands)] frozenChaseGame) ! 0) = 1 / 8
   \<and> position (enemies (game_run [(1 / 20, noRands), (1 / 25, noRands), (1 / 20, noRands),
                                     (1 / 8, noRands)] frozenChaseGame) ! 0) = V3 (5 / 16) (7 / 10) 0"
    unfolding e by (simp add: frozenChaseGame_def chase_eval_defs cong: let_weak_cong)
  show ?thesis by (rule conjI[OF a conjI[OF c d]])
qed

lemmas gl_defs = loop_run.simps gameLoop_def wallClock_def game_update_def enemyManager_update_def
  em_loop.simps combat_update_def fireballManager_update_def fm_forEach.simps fireball_update_def
  telegraphManager_update_def cleanupCancelled_def tm_loop.simps telegraph_update_def
  fireballTelegraphCallback_def createTelegraph_def newTelegraph_def startTelegraph_def
  followPosition_def newGame_def noRand_def noRands_def freezeFrame_def reachesOne_def completeTelegraph_def
  fireballInFlight_def launchFireball_def initialize_def newShared_def newCombatSystem_def
  newFireball_def launch_def createFireballTelegraph_def setFireball_def emit_def Let_def V3_def
  addVec_def multiplyScalar_def

text \<open>
  C9 as stated fails for the one timer of the model that \<open>update\<close> does not drive: the
  delay before the telegraph of a fireball is a \<open>setTimeout\<close>, and it runs on during the
  freeze. With 0.05 seconds of that delay left when the game freezes for 0.18 seconds, the
  timer fires during the freeze: when the freeze has run out the telegraph is there, while
  the fireball has not moved.
\<close>

theorem C9_wall_clock_timer_counterexample:
  "freezeTime (world frozenFireballGame) = 18 / 100
   \<and> pendingTelegraphs (world frozenFireballGame) = [(0, 1 / 20, 3 / 2)]
   \<and> activeTelegraphs (world frozenFireballGame) = []
   \<and> fb_lifetime (fireballObjs (world frozenFireballGame) ! 0) = 89 / 20
   \<and> freezeTime (world thawedFireballGame) = - (1 / 50)
   \<and> pendingTelegraphs (world thawedFireballGame) = []
   \<and> activeTelegraphs (world thawedFireballGame) = [0]
   \<and> tg_isActive (telegraphObjs (world thawedFireballGame) ! 0)
   \<and> tg_elapsedTime (telegraphObjs (world thawedFireballGame) ! 0) = 0
   \<and> fb_lifetime (fireballObjs (world thawedFireballGame) ! 0) = 89 / 20
   \<and> eventLog (world thawedFireballGame)
       = eventLog (world frozenFireballGame) @ [EvTelegraph Area (83 / 100) (3 / 2)]"
  by (simp add: thawedFireballGame_def frozenFireballGame_def gl_defs cong: let_weak_cong)

section \<open>The knockback curve\<close>

text \<open>
  C4. The eased knockback as the code computes it. The second branch of the curve runs
  from 1 down to 0.8, not from 0.8 down to 0: at 30% of the duration the factor is 1, at
  half of the duration it is 33/35, and it stays above 0.8 until the timer reaches the
  duration, where the position is set back to the origin. An enemy with the default
  duration 0.3 and distance 0.6, hit from the left at the origin, stands 99/175 (about 0.57)
  from the origin after 0.15 seconds, more than 0.8 * 0.6 = 0.48.
\<close>

theorem C4_knockback_curve_in_code:
  "easeT (3 / 10) = 1 \<and> easeT (1 / 2) = 33 / 35 \<and> easeT (99 / 100) = 281 / 350
   \<and> position (updateKnockback (15 / 100) (applyKnockback (V3 (- 1) (7 / 10) 0) newEnemy))
       = V3 (99 / 175) (7 / 10) 0
   \<and> position (updateKnockback (3 / 10) (applyKnockback (V3 (- 1) (7 / 10) 0) newEnemy))
       = V3 0 (7 / 10) 0"
  by (simp add: updateKnockback_def applyKnockback_def newEnemy_def easeT_def Let_def
      lerpVectors_def normalize_def flat_def subVectors_def vlength_def multiplyScalar_def
      addVec_def V3_def)

lemma easeT_first_part: "0 \<le> t \<Longrightarrow> t < 3 / 10 \<Longrightarrow> 0 \<le> easeT t \<and> easeT t < 8 / 10"
  by (simp add: easeT_def field_simps)

lemma easeT_second_part: "3 / 10 \<le> t \<Longrightarrow> t < 1 \<Longrightarrow> 8 / 10 < easeT t \<and> easeT t \<le> 1"
  by (simp add: easeT_def field_simps)

section \<open>Perception\<close>

lemma vision_cone_as_cosine:
  assumes "0 \<le> va" "va \<le> 360"
  shows "arccos (clamp_unit d) * (180 / pi) \<le> va / 2
         \<longleftrightarrow> cos (va / 2 * (pi / 180)) \<le> clamp_unit d"
proof -
  have c: "- 1 \<le> clamp_unit d" "clamp_unit d \<le> 1" by (simp_all add: clamp_unit_def)
  let ?th = "va / 2 * (pi / 180)"
  have th: "0 \<le> ?th" "?th \<le> pi" using assms by (simp_all add: field_simps)
  have "arccos (clamp_unit d) * (180 / pi) \<le> va / 2 \<longleftrightarrow> arccos (clamp_unit d) \<le> ?th"
    by (simp add: field_simps)
  also have "\<dots> \<longleftrightarrow> arccos (clamp_unit d) \<le> arccos (cos ?th)"
    using th by (simp add: arccos_cos)
  also have "\<dots> \<longleftrightarrow> cos ?th \<le> clamp_unit d"
    using c th by (intro arccos_le_mono) (simp_all add: abs_le_iff)
  finally show ?thesis .
qed

lemma sqrt_81: "sqrt 81 = 9"
  using real_sqrt_abs[of 9] by simp

text \<open>
  C6. \<open>canSeePlayer\<close> is the perception check of the specification: false without a
  target, false when the target is farther than \<open>detectionRange\<close>, and otherwise true
  exactly when the angle between the horizontal direction to the target and the forward
  vector (the tangent of the patrol loop while patrolling, the facing axis in every other
  state), taken as the clamped arccosine of their dot product, is at most half of
  \<open>visionAngle\<close>.
\<close>

theorem C6_canSeePlayer_is_spec:
  "canSeePlayer e sh
     = spec_canSeeTarget e (if hasTarget e then Some (pl_position (thePlayer sh)) else None)"
  by (simp add: canSeePlayer_def spec_canSeeTarget_def spec_forward_def Let_def cos_add sin_add)

theorem C6_canSeePlayer_is_spec_witness:
  "canSeePlayer (newEnemy\<lparr>currentState := CHASE\<rparr>) (newShared (V3 1 (7 / 10) 0))
   \<and> \<not> canSeePlayer (newEnemy\<lparr>currentState := CHASE\<rparr>) (newShared (V3 (- 1) (7 / 10) 0))
   \<and> \<not> canSeePlayer (newEnemy\<lparr>currentState := CHASE\<rparr>) (newShared (V3 9 (7 / 10) 0))
   \<and> \<not> canSeePlayer (newEnemy\<lparr>hasTarget := False\<rparr>) (newShared (V3 1 (7 / 10) 0))
   \<and> canSeePlayer newEnemy (newShared (V3 0 (7 / 10) 1))"
  using C6_canSeePlayer_is_spec[of "newEnemy\<lparr>currentState := CHASE\<rparr>" "newShared (V3 1 (7 / 10) 0)"]
        C6_canSeePlayer_is_spec[of "newEnemy\<lparr>currentState := CHASE\<rparr>" "newShared (V3 (- 1) (7 / 10) 0)"]
        C6_canSeePlayer_is_spec[of "newEnemy\<lparr>currentState := CHASE\<rparr>" "newShared (V3 9 (7 / 10) 0)"]
        C6_canSeePlayer_is_spec[of "newEnemy\<lparr>hasTarget := False\<rparr>" "newShared (V3 1 (7 / 10) 0)"]
        C6_canSeePlayer_is_spec[of "newEnemy" "newShared (V3 0 (7 / 10) 1)"]
  by (simp add: spec_canSeeTarget_def spec_forward_def newEnemy_def newShared_def V3_def
      distanceTo_def subVectors_def vlength_def normalize_def flat_def multiplyScalar_def
      dot_def clamp_unit_def sqrt_81 arccos_minus_1)


section \<open>Fireball impact\<close>

lemma cancelTelegraph_frame [simp]:
  "combatSystem (cancelTelegraph tid sh) = combatSystem sh"
  "thePlayer (cancelTelegraph tid sh) = thePlayer sh"
  "fireballObjs (cancelTelegraph tid sh) = fireballObjs sh"
  "fm_hasCombatSystem (cancelTelegraph tid sh) = fm_hasCombatSystem sh"
  "fm_hasTelegraphManager (cancelTelegraph tid sh) = fm_hasTelegraphManager sh"
  "fireballPool (cancelTelegraph tid sh) = fireballPool sh"
  "activeFireballs (cancelTelegraph tid sh) = activeFireballs sh"
  "eventLog (cancelTelegraph tid sh) = eventLog sh"
  "freezeTime (cancelTelegraph tid sh) = freezeTime sh"
  by (simp_all add: cancelTelegraph_def)

lemma setFireball_frame [simp]:
  "combatSystem (setFireball fid fb sh) = combatSystem sh"
  "thePlayer (setFireball fid fb sh) = thePlayer sh"
  "fm_hasCombatSystem (setFireball fid fb sh) = fm_hasCombatSystem sh"
  "fm_hasTelegraphManager (setFireball fid fb sh) = fm_hasTelegraphManager sh"
  "fireballPool (setFireball fid fb sh) = fireballPool sh"
  "activeFireballs (setFireball fid fb sh) = activeFireballs sh"
  "eventLog (setFireball fid fb sh) = eventLog sh"
  "length (fireballObjs (setFireball fid fb sh)) = length (fireballObjs sh)"
  "fid < length (fireballObjs sh) \<Longrightarrow> fireballObjs (setFireball fid fb sh) ! fid = fb"
  by (simp_all add: setFireball_def)

lemma removeFireballTelegraph_frame [simp]:
  "combatSystem (removeFireballTelegraph fid sh) = combatSystem sh"
  "thePlayer (removeFireballTelegraph fid sh) = thePlayer sh"
  "fm_hasCombatSystem (removeFireballTelegraph fid sh) = fm_hasCombatSystem sh"
  "fm_hasTelegraphManager (removeFireballTelegraph fid sh) = fm_hasTelegraphManager sh"
  "fireballPool (removeFireballTelegraph fid sh) = fireballPool sh"
  "activeFireballs (removeFireballTelegraph fid sh) = activeFireballs sh"
  "eventLog (removeFireballTelegraph fid sh) = eventLog sh"
  "length (fireballObjs (removeFireballTelegraph fid sh)) = length (fireballObjs sh)"
  by (simp_all add: removeFireballTelegraph_def split: option.splits)

lemma removeFireballTelegraph_obj:
  "fid < length (fireballObjs sh) \<Longrightarrow>
   fireballObjs (removeFireballTelegraph fid sh) ! fid
     = (fireballObjs sh ! fid)\<lparr>fb_telegraph := None\<rparr>"
  by (simp add: removeFireballTelegraph_def split: option.splits)

lemma returnFireballToPool_frame [simp]:
  "combatSystem (returnFireballToPool fid sh) = combatSystem sh"
  "thePlayer (returnFireballToPool fid sh) = thePlayer sh"
  "fireballObjs (returnFireballToPool fid sh) = fireballObjs sh"
  "fm_hasCombatSystem (returnFireballToPool fid sh) = fm_hasCombatSystem sh"
  "fm_hasTelegraphManager (returnFireballToPool fid sh) = fm_hasTelegraphManager sh"
  "eventLog (returnFireballToPool fid sh) = eventLog sh"
  by (simp_all add: returnFireballToPool_def)

lemma removeFireball_frame [simp]:
  "combatSystem (removeFireball fid sh) = combatSystem sh"
  "thePlayer (removeFireball fid sh) = thePlayer sh"
  "fm_hasCombatSystem (removeFireball fid sh) = fm_hasCombatSystem sh"
  "fm_hasTelegraphManager (removeFireball fid sh) = fm_hasTelegraphManager sh"
  "eventLog (removeFireball fid sh) = eventLog sh"
  "length (fireballObjs (removeFireball fid sh)) = length (fireballObjs sh)"
  by (simp_all add: removeFireball_def Let_def)

lemma handlePlayerDamage_health:
  "cs_playerHealth (combatSystem (fst (handlePlayerDamage d sh)))
     = (if cs_playerInvulnerable (combatSystem sh) then cs_playerHealth (combatSystem sh)
        else cs_playerHealth (combatSystem sh) - d)"
  by (simp add: handlePlayerDamage_def Let_def emit_def freezeFrame_def)

lemma handleFireballExplosion_health:
  "cs_playerHealth (combatSystem (handleFireballExplosion fid sh))
     = (if fm_hasCombatSystem sh \<and> cs_hasPlayerController (combatSystem sh)
           \<and> isInTelegraphArea (fireballObjs sh ! fid) (pl_position (thePlayer sh))
           \<and> \<not> cs_playerInvulnerable (combatSystem sh)
        then cs_playerHealth (combatSystem sh) - fb_damage (fireballObjs sh ! fid)
        else cs_playerHealth (combatSystem sh))"
  by (simp add: handleFireballExplosion_def Let_def handlePlayerDamage_health)

lemma handlePlayerDamage_log:
  "eventLog (fst (handlePlayerDamage d sh))
     = eventLog sh @ [EvPlayerDamage d (\<not> cs_playerInvulnerable (combatSystem sh))]"
  by (simp add: handlePlayerDamage_def Let_def emit_def freezeFrame_def)

lemma handleFireballExplosion_log:
  "eventLog (handleFireballExplosion fid sh)
     = eventLog sh @
       (if fm_hasCombatSystem sh \<and> cs_hasPlayerController (combatSystem sh)
           \<and> isInTelegraphArea (fireballObjs sh ! fid) (pl_position (thePlayer sh))
        then [EvPlayerDamage (fb_damage (fireballObjs sh ! fid))
                (\<not> cs_playerInvulnerable (combatSystem sh))]
        else [])"
  by (simp add: handleFireballExplosion_def Let_def handlePlayerDamage_log)

lemmas fireball_sample_defs =
  fireballInFlight_def launchFireball_def initialize_def newShared_def newCombatSystem_def
  newFireball_def launch_def createFireballTelegraph_def setFireball_def emit_def Let_def V3_def

text \<open>
  C2, as the code has it. When a fireball resolves its impact (with the combat system and
  the player controller wired), \<open>handlePlayerDamage\<close> is called, with the fireball's damage,
  exactly when the player's position is within \<open>telegraphRadius\<close> of the landing point:
  the impact adds one player-damage event to the log in that case and none otherwise. The
  call is accepted, and the player loses the damage, exactly when the player is moreover
  not in the invulnerability window; otherwise the health is unchanged. The explosion
  radius and the position of the falling sprite do not enter: replacing them by any other
  values leaves the events and the health the same.
\<close>

theorem C2_damage_by_telegraph_area:
  assumes "fid < length (fireballObjs sh)"
    and "\<not> fb_hasExploded (fireballObjs sh ! fid)" and "fb_onComplete (fireballObjs sh ! fid)"
    and "fm_hasCombatSystem sh" and "cs_hasPlayerController (combatSystem sh)"
  shows "eventLog (triggerGroundImpact fid sh)
           = eventLog sh @
             (if distanceTo (fb_targetPosition (fireballObjs sh ! fid)) (pl_position (thePlayer sh))
                  \<le> fb_telegraphRadius (fireballObjs sh ! fid)
              then [EvPlayerDamage (fb_damage (fireballObjs sh ! fid))
                      (\<not> cs_playerInvulnerable (combatSystem sh))]
              else [])
         \<and> cs_playerHealth (combatSystem (triggerGroundImpact fid sh))
           = (if distanceTo (fb_targetPosition (fireballObjs sh ! fid)) (pl_position (thePlayer sh))
                   \<le> fb_telegraphRadius (fireballObjs sh ! fid)
                 \<and> \<not> cs_playerInvulnerable (combatSystem sh)
              then cs_playerHealth (combatSystem sh) - fb_damage (fireballObjs sh ! fid)
              else cs_playerHealth (combatSystem sh))
         \<and> eventLog (triggerGroundImpact fid
               (setFireball fid ((fireballObjs sh ! fid)\<lparr>fb_explosionRadius := R, fb_position := P\<rparr>) sh))
           = eventLog (triggerGroundImpact fid sh)
         \<and> cs_playerHealth (combatSystem (triggerGroundImpact fid
               (setFireball fid ((fireballObjs sh ! fid)\<lparr>fb_explosionRadius := R, fb_position := P\<rparr>) sh)))
           = cs_playerHealth (combatSystem (triggerGroundImpact fid sh))"
  using assms
  by (simp add: triggerGroundImpact_def Let_def handleFireballExplosion_health
      handleFireballExplosion_log removeFireballTelegraph_obj isInTelegraphArea_def)

theorem C2_damage_by_telegraph_area_witness:
  "eventLog (triggerGroundImpact 0 (fireballInFlight (V3 0 0 0) False))
     = [EvFireballLaunch (V3 0 0 0) True, EvPlayerDamage 1 True]
   \<and> cs_playerHealth (combatSystem (triggerGroundImpact 0 (fireballInFlight (V3 0 0 0) False))) = 4
   \<and> eventLog (triggerGroundImpact 0 (fireballInFlight (V3 2 0 0) False))
     = [EvFireballLaunch (V3 0 0 0) True]
   \<and> cs_playerHealth (combatSystem (triggerGroundImpact 0 (fireballInFlight (V3 2 0 0) False))) = 5
   \<and> distanceTo (V3 0 0 0) (V3 2 0 0)
        \<le> fb_explosionRadius (fireballObjs (fireballInFlight (V3 2 0 0) False) ! 0)"
  using C2_damage_by_telegraph_area[of 0 "fireballInFlight (V3 0 0 0) False"]
        C2_damage_by_telegraph_area[of 0 "fireballInFlight (V3 2 0 0) False"]
  by (simp add: fireball_sample_defs distanceTo_def subVectors_def vlength_def)

text \<open>
  C2 as stated fails for a player in the invulnerability window: the fireball lands (after
  6 seconds of fall from height 15 at speed 2.5) on a player who stands on the landing
  point, inside the telegraph radius; \<open>handlePlayerDamage\<close> is called and rejects the
  hit, and the player's health stays 5.
\<close>

theorem C2_invulnerable_counterexample:
  "isInTelegraphArea (fireballObjs (fireballInFlight (V3 0 0 0) True) ! 0)
     (pl_position (thePlayer (fireballInFlight (V3 0 0 0) True)))
   \<and> fb_hasExploded (fireballObjs (fireball_update 0 6 (fireballInFlight (V3 0 0 0) True)) ! 0)
   \<and> cs_playerHealth (combatSystem (fireballInFlight (V3 0 0 0) True)) = 5
   \<and> cs_playerHealth (combatSystem (fireball_update 0 6 (fireballInFlight (V3 0 0 0) True))) = 5
   \<and> eventLog (fireball_update 0 6 (fireballInFlight (V3 0 0 0) True))
       = [EvFireballLaunch (V3 0 0 0) True, EvPlayerDamage 1 False]"
  by (simp add: fireball_sample_defs fireball_update_def isInTelegraphArea_def distanceTo_def
      subVectors_def vlength_def addVec_def multiplyScalar_def triggerGroundImpact_def
      removeFireballTelegraph_def handleFireballExplosion_def handlePlayerDamage_def
      removeFireball_def returnFireballToPool_def)


section \<open>The fireball pool\<close>

lemma pool_ok_mem:
  assumes "pool_ok n X sh" "fid \<in> set (fireballPool sh) \<or> fid \<in> set (activeFireballs sh)"
  shows "fid < n"
  using assms by (auto simp: pool_ok_def)

lemma pool_ok_mono: "pool_ok n X sh \<Longrightarrow> X \<subseteq> Y \<Longrightarrow> pool_ok n Y sh"
  by (auto simp: pool_ok_def)

lemma nth_update_pred: "j < length xs \<Longrightarrow> P x \<Longrightarrow> P (xs ! j) \<Longrightarrow> P (xs[i := x] ! j)"
  by (cases "i = j") simp_all

lemma pool_ok_setFireball:
  assumes inv: "pool_ok n X sh" and m: "fb_hasManager fb"
    and a: "fid \<in> set (activeFireballs sh) \<Longrightarrow> fid \<notin> Y \<Longrightarrow> fb_isActive fb \<and> \<not> fb_hasExploded fb"
    and XY: "X \<subseteq> Y \<union> {fid}"
  shows "pool_ok n Y (setFireball fid fb sh)"
proof -
  have len: "length (fireballObjs sh) = n" using inv by (simp add: pool_ok_def)
  have 1: "\<forall>j < n. fb_hasManager ((fireballObjs sh)[fid := fb] ! j)"
    using inv m len by (auto simp: pool_ok_def intro: nth_update_pred)
  have 2: "\<forall>j \<in> set (activeFireballs sh). j \<notin> Y \<longrightarrow>
       fb_isActive ((fireballObjs sh)[fid := fb] ! j) \<and> \<not> fb_hasExploded ((fireballObjs sh)[fid := fb] ! j)"
  proof (intro ballI impI)
    fix j assume j: "j \<in> set (activeFireballs sh)" and jY: "j \<notin> Y"
    then have jn: "j < n" using pool_ok_mem[OF inv] by blast
    show "fb_isActive ((fireballObjs sh)[fid := fb] ! j) \<and> \<not> fb_hasExploded ((fireballObjs sh)[fid := fb] ! j)"
    proof (cases "fid = j")
      case True then show ?thesis using a j jY jn len by simp
    next
      case False
      then have "j \<notin> X" using XY jY by auto
      then show ?thesis using False inv j by (simp add: pool_ok_def)
    qed
  qed
  show ?thesis using inv 1 2 by (simp add: pool_ok_def setFireball_def)
qed

lemma pool_ok_return:
  assumes "pool_ok n X sh"
  shows "pool_ok n (X - {fid}) (returnFireballToPool fid sh)"
  using assms by (auto simp: pool_ok_def returnFireballToPool_def)

lemma pool_ok_cancel: "pool_ok n X (cancelTelegraph tid sh) = pool_ok n X sh"
  by (simp add: pool_ok_def cancelTelegraph_def)

lemma pool_ok_hpd: "pool_ok n X (fst (handlePlayerDamage d sh)) = pool_ok n X sh"
  by (simp add: pool_ok_def handlePlayerDamage_def Let_def emit_def freezeFrame_def)

lemma pool_ok_count: "pool_ok n X sh \<Longrightarrow> length (fireballPool sh) + length (activeFireballs sh) = n"
proof -
  assume a: "pool_ok n X sh"
  then have d: "distinct (fireballPool sh @ activeFireballs sh)" and s: "set (fireballPool sh @ activeFireballs sh) = {..<n}"
    by (auto simp: pool_ok_def)
  from d have "length (fireballPool sh @ activeFireballs sh) = card (set (fireballPool sh @ activeFireballs sh))"
    by (simp only: distinct_card)
  with s show ?thesis by simp
qed

lemma pool_ok_removeFireballTelegraph:
  assumes "pool_ok n X sh" "fid < n"
  shows "pool_ok n X (removeFireballTelegraph fid sh)"
proof (cases "fb_telegraph (fireballObjs sh ! fid)")
  case None
  then show ?thesis using assms by (simp add: removeFireballTelegraph_def)
next
  case (Some tid)
  have c: "pool_ok n X (cancelTelegraph tid sh)" using assms by (simp add: pool_ok_cancel)
  have "pool_ok n X (setFireball fid ((fireballObjs sh ! fid)\<lparr>fb_telegraph := None\<rparr>) (cancelTelegraph tid sh))"
    using assms by (intro pool_ok_setFireball[OF c]) (auto simp: pool_ok_def)
  then show ?thesis using Some by (simp add: removeFireballTelegraph_def)
qed

lemma pool_ok_removeFireball:
  assumes inv: "pool_ok n X sh" and fid: "fid < n"
  shows "pool_ok n (X - {fid}) (removeFireball fid sh)"
proof -
  let ?fb = "(fireballObjs sh ! fid)\<lparr>fb_isActive := False, fb_visible := False\<rparr>"
  have hm: "fb_hasManager ?fb" using inv fid by (simp add: pool_ok_def)
  have "pool_ok n (X \<union> {fid}) (setFireball fid ?fb sh)"
    using inv hm by (intro pool_ok_setFireball[OF inv]) auto
  then have "pool_ok n ((X \<union> {fid}) - {fid}) (returnFireballToPool fid (setFireball fid ?fb sh))"
    by (rule pool_ok_return)
  then have "pool_ok n (X - {fid}) (returnFireballToPool fid (setFireball fid ?fb sh))"
    by (rule pool_ok_mono) auto
  then show ?thesis using hm by (simp add: removeFireball_def Let_def)
qed

lemma pool_ok_handleFireballExplosion:
  "pool_ok n X sh \<Longrightarrow> pool_ok n X (handleFireballExplosion fid sh)"
  by (simp add: handleFireballExplosion_def Let_def pool_ok_hpd)

lemma pool_ok_triggerGroundImpact:
  assumes inv: "pool_ok n {} sh" and fid: "fid < n"
  shows "pool_ok n {} (triggerGroundImpact fid sh)"
proof (cases "fb_hasExploded (fireballObjs sh ! fid)")
  case True
  then show ?thesis using inv by (simp add: triggerGroundImpact_def)
next
  case False
  let ?sh1 = "setFireball fid ((fireballObjs sh ! fid)\<lparr>fb_hasExploded := True\<rparr>) sh"
  have 1: "pool_ok n {fid} ?sh1"
    using inv fid by (intro pool_ok_setFireball[OF inv]) (auto simp: pool_ok_def)
  have 2: "pool_ok n {fid} (removeFireballTelegraph fid ?sh1)"
    using 1 fid by (rule pool_ok_removeFireballTelegraph)
  have 3: "\<And>s. pool_ok n {fid} s \<Longrightarrow> pool_ok n {} (removeFireball fid s)"
    using pool_ok_removeFireball[of n "{fid}" _ fid] fid by simp
  show ?thesis
    using False 2 fid
    by (simp add: triggerGroundImpact_def Let_def 3 pool_ok_handleFireballExplosion)
qed

lemma pool_ok_removeFireball0:
  "pool_ok n {} sh \<Longrightarrow> fid < n \<Longrightarrow> pool_ok n {} (removeFireball fid sh)"
  using pool_ok_removeFireball[of n "{}" sh fid] by simp

lemma pool_ok_explode:
  assumes "pool_ok n {} sh" "fid < n"
  shows "pool_ok n {} (explode fid sh)"
  using assms by (simp add: explode_def pool_ok_removeFireball0 pool_ok_triggerGroundImpact)

lemma pool_ok_fireball_update:
  assumes inv: "pool_ok n {} sh" and fid: "fid \<in> set (activeFireballs sh)"
  shows "pool_ok n {} (fireball_update fid deltaTime sh)"
proof (cases "fb_isActive (fireballObjs sh ! fid)")
  case False
  then show ?thesis using inv by (simp add: fireball_update_def)
next
  case True
  have n: "fid < n" using pool_ok_mem[OF inv] fid by blast
  have hm: "fb_hasManager (fireballObjs sh ! fid)" and ne: "\<not> fb_hasExploded (fireballObjs sh ! fid)"
    using inv fid n by (auto simp: pool_ok_def)
  have set_ok: "\<And>fb. fb_hasManager fb \<Longrightarrow> fb_isActive fb \<Longrightarrow> \<not> fb_hasExploded fb \<Longrightarrow> pool_ok n {} (setFireball fid fb sh)"
    using inv by (intro pool_ok_setFireball[OF inv]) auto
  show ?thesis
    using True hm ne n
    by (simp add: fireball_update_def Let_def set_ok pool_ok_explode pool_ok_triggerGroundImpact)
qed

lemma pool_ok_fm_forEach:
  "pool_ok n {} sh \<Longrightarrow> pool_ok n {} (fm_forEach k i deltaTime sh)"
proof (induction k arbitrary: i sh)
  case 0
  then show ?case by simp
next
  case (Suc k)
  have "pool_ok n {} (if i < length (activeFireballs sh)
        then fireball_update (activeFireballs sh ! i) deltaTime sh else sh)"
    using Suc.prems by (simp add: pool_ok_fireball_update)
  then show ?case using Suc.IH by simp
qed


lemma pool_ok_launchFireball:
  assumes inv: "pool_ok n {} sh"
  shows "pool_ok n {} (fst (launchFireball p sh))"
proof (cases "fireballPool sh = []")
  case True
  then show ?thesis using inv by (simp add: launchFireball_def emit_def pool_ok_def)
next
  case False
  let ?fid = "last (fireballPool sh)"
  let ?ps = "butlast (fireballPool sh)"
  have pool: "fireballPool sh = ?ps @ [?fid]" using False by simp
  have fid_n: "?fid < n" using pool_ok_mem[OF inv, of ?fid] False by simp
  let ?sh1 = "(emit (EvFireballLaunch p True) sh)
                     \<lparr>fireballPool := butlast (fireballPool sh),
                      activeFireballs := activeFireballs sh @ [?fid]\<rparr>"
  have "distinct ((?ps @ [?fid]) @ activeFireballs sh)"
    and "set (?ps @ [?fid]) \<union> set (activeFireballs sh) = {..<n}"
    using inv pool by (simp_all add: pool_ok_def)
  then have d: "distinct (?ps @ activeFireballs sh @ [?fid])"
    and u: "set ?ps \<union> set (activeFireballs sh @ [?fid]) = {..<n}"
    by auto
  have 1: "pool_ok n {?fid} ?sh1"
    using inv d u by (simp add: pool_ok_def emit_def)
  define sh2 where "sh2 = (if fm_hasTelegraphManager ?sh1
                   then setFireball ?fid ((fireballObjs ?sh1 ! ?fid)\<lparr>fb_hasTelegraphManager := True\<rparr>) ?sh1
                   else ?sh1)"
  have hm1: "fb_hasManager (fireballObjs ?sh1 ! ?fid)" using inv fid_n by (simp add: pool_ok_def emit_def)
  have 2: "pool_ok n {?fid} sh2"
    unfolding sh2_def using 1 hm1 by (auto intro!: pool_ok_setFireball[OF 1])
  have hm2: "fb_hasManager (fireballObjs sh2 ! ?fid)" using 2 fid_n by (simp add: pool_ok_def)
  have 3: "pool_ok n {} (launch ?fid p sh2)"
  proof -
    have a: "\<And>fb. fb_hasManager fb \<Longrightarrow> fb_isActive fb \<Longrightarrow> \<not> fb_hasExploded fb \<Longrightarrow>
              pool_ok n {} (setFireball ?fid fb sh2)"
      by (intro pool_ok_setFireball[OF 2]) auto
    have b: "\<And>s. pool_ok n {} s \<Longrightarrow> pool_ok n {} (createFireballTelegraph ?fid s)"
      using fid_n by (auto simp: createFireballTelegraph_def Let_def pool_ok_def)
    show ?thesis
      unfolding launch_def Let_def by (intro b a) (simp_all add: hm2)
  qed
  show ?thesis using False 3 by (simp add: launchFireball_def Let_def sh2_def)
qed

lemma pool_ok_createTelegraph:
  "pool_ok n X (fst (createTelegraph ty pos r w f sh)) = pool_ok n X sh"
  by (simp add: createTelegraph_def Let_def emit_def pool_ok_def)

lemma createTelegraph_fireballObjs [simp]:
  "fireballObjs (fst (createTelegraph ty pos r w f sh)) = fireballObjs sh"
  "activeFireballs (fst (createTelegraph ty pos r w f sh)) = activeFireballs sh"
  by (simp_all add: createTelegraph_def Let_def emit_def)

lemma pool_ok_callback:
  assumes inv: "pool_ok n {} sh" and fid: "fid < n"
  shows "pool_ok n {} (fireballTelegraphCallback fid duration sh)"
proof (cases "fb_isActive (fireballObjs sh ! fid) \<and> \<not> fb_hasExploded (fireballObjs sh ! fid)")
  case False
  then show ?thesis using inv by (auto simp: fireballTelegraphCallback_def Let_def)
next
  case True
  obtain sh1 tid where ct: "createTelegraph Area (fb_targetPosition (fireballObjs sh ! fid))
        (fb_telegraphRadius (fireballObjs sh ! fid)) duration None sh = (sh1, tid)" by (cases "createTelegraph Area (fb_targetPosition (fireballObjs sh ! fid))
        (fb_telegraphRadius (fireballObjs sh ! fid)) duration None sh")
  have 1: "pool_ok n {} sh1"
    using pool_ok_createTelegraph[of n "{}" Area "fb_targetPosition (fireballObjs sh ! fid)"
            "fb_telegraphRadius (fireballObjs sh ! fid)" duration None sh] ct inv by simp
  have o: "fireballObjs sh1 = fireballObjs sh"
    using createTelegraph_fireballObjs(1)[of Area "fb_targetPosition (fireballObjs sh ! fid)"
            "fb_telegraphRadius (fireballObjs sh ! fid)" duration None sh] ct by simp
  have "pool_ok n {} (setFireball fid ((fireballObjs sh1 ! fid)\<lparr>fb_telegraph := Some tid\<rparr>) sh1)"
    using True o inv fid by (intro pool_ok_setFireball[OF 1]) (auto simp: pool_ok_def)
  then show ?thesis using True ct by (simp add: fireballTelegraphCallback_def Let_def)
qed

lemma pool_ok_fm_step:
  assumes inv: "pool_ok n {} sh"
  shows "pool_ok n {} (fm_step op sh)"
proof (cases op)
  case (Launch p)
  then show ?thesis using inv by (simp add: fm_step_def pool_ok_launchFireball)
next
  case (Tick dt)
  then show ?thesis using inv by (simp add: fm_step_def fireballManager_update_def pool_ok_fm_forEach)
next
  case (FireTimer k)
  show ?thesis
  proof (cases "k < length (pendingTelegraphs sh)")
    case False
    then show ?thesis using inv FireTimer by (simp add: fm_step_def)
  next
    case True
    obtain fid delay duration where t: "pendingTelegraphs sh ! k = (fid, delay, duration)"
      by (cases "pendingTelegraphs sh ! k")
    have "pendingTelegraphs sh ! k \<in> set (pendingTelegraphs sh)" using True by simp
    then have fid: "fid < n" using inv t by (auto simp: pool_ok_def)
    let ?sh1 = "sh\<lparr>pendingTelegraphs := take k (pendingTelegraphs sh) @ drop (Suc k) (pendingTelegraphs sh)\<rparr>"
    have "pool_ok n {} ?sh1"
      using inv by (auto simp: pool_ok_def dest: in_set_takeD in_set_dropD)
    then have "pool_ok n {} (fireballTelegraphCallback fid duration ?sh1)"
      using fid by (rule pool_ok_callback)
    then show ?thesis using True t FireTimer by (simp add: fm_step_def)
  qed
qed

lemma pool_ok_fm_run: "pool_ok n {} sh \<Longrightarrow> pool_ok n {} (fm_run ops sh)"
  by (induction ops arbitrary: sh) (simp_all add: pool_ok_fm_step)

lemma pool_ok_initialize:
  assumes "fireballObjs sh = []" "fireballPool sh = []" "activeFireballs sh = []" "pendingTelegraphs sh = []"
  shows "pool_ok n {} (initialize n True sh)"
  using assms by (auto simp: pool_ok_def initialize_def)

lemma removeFireball_returns:
  assumes "fid \<in> set (activeFireballs sh)" "fb_hasManager (fireballObjs sh ! fid)" "fid < length (fireballObjs sh)"
    "distinct (activeFireballs sh)"
  shows "fid \<in> set (fireballPool (removeFireball fid sh)) \<and> fid \<notin> set (activeFireballs (removeFireball fid sh))"
  using assms by (simp add: removeFireball_def Let_def returnFireballToPool_def)


lemma handlePlayerDamage_lists [simp]:
  "fireballPool (fst (handlePlayerDamage d sh)) = fireballPool sh"
  "activeFireballs (fst (handlePlayerDamage d sh)) = activeFireballs sh"
  "fireballObjs (fst (handlePlayerDamage d sh)) = fireballObjs sh"
  by (simp_all add: handlePlayerDamage_def Let_def emit_def freezeFrame_def)

lemma handleFireballExplosion_lists [simp]:
  "fireballPool (handleFireballExplosion fid sh) = fireballPool sh"
  "activeFireballs (handleFireballExplosion fid sh) = activeFireballs sh"
  "fireballObjs (handleFireballExplosion fid sh) = fireballObjs sh"
  by (simp_all add: handleFireballExplosion_def Let_def)

lemma triggerGroundImpact_returns:
  assumes "fid \<in> set (activeFireballs sh)" "\<not> fb_hasExploded (fireballObjs sh ! fid)"
    "fb_hasManager (fireballObjs sh ! fid)" "fid < length (fireballObjs sh)"
    "distinct (activeFireballs sh)"
  shows "fid \<in> set (fireballPool (triggerGroundImpact fid sh))
         \<and> fid \<notin> set (activeFireballs (triggerGroundImpact fid sh))"
  using assms
  by (simp add: triggerGroundImpact_def Let_def removeFireball_def returnFireballToPool_def
      removeFireballTelegraph_obj)

lemma removeFireball_keeps_returned:
  assumes "fid \<in> set (fireballPool sh) \<and> fid \<notin> set (activeFireballs sh)"
  shows "fid \<in> set (fireballPool (removeFireball fid sh))
         \<and> fid \<notin> set (activeFireballs (removeFireball fid sh))"
  using assms by (simp add: removeFireball_def Let_def returnFireballToPool_def)

lemma impact_returns_to_pool:
  assumes inv: "pool_ok n {} sh" and fid: "fid \<in> set (activeFireballs sh)"
    and impact: "fb_lifetime (fireballObjs sh ! fid) + deltaTime \<ge> fb_maxLifetime (fireballObjs sh ! fid)
       \<or> vy (fb_position (fireballObjs sh ! fid)) + vy (fb_velocity (fireballObjs sh ! fid)) * deltaTime \<le> 0"
  shows "fid \<in> set (fireballPool (fireball_update fid deltaTime sh))
         \<and> fid \<notin> set (activeFireballs (fireball_update fid deltaTime sh))"
proof -
  have n: "fid < n" using pool_ok_mem[OF inv] fid by blast
  have len: "length (fireballObjs sh) = n" and d: "distinct (activeFireballs sh)"
    using inv by (simp_all add: pool_ok_def)
  have act: "fb_isActive (fireballObjs sh ! fid)" and ne: "\<not> fb_hasExploded (fireballObjs sh ! fid)"
    and hm: "fb_hasManager (fireballObjs sh ! fid)"
    using inv fid n by (auto simp: pool_ok_def)
  have tgi: "\<And>fb. \<not> fb_hasExploded fb \<Longrightarrow> fb_hasManager fb \<Longrightarrow>
      fid \<in> set (fireballPool (triggerGroundImpact fid (setFireball fid fb sh)))
         \<and> fid \<notin> set (activeFireballs (triggerGroundImpact fid (setFireball fid fb sh)))"
    using fid n len d by (intro triggerGroundImpact_returns) simp_all
  show ?thesis
  proof (cases "fb_lifetime (fireballObjs sh ! fid) + deltaTime \<ge> fb_maxLifetime (fireballObjs sh ! fid)")
    case True
    then show ?thesis
      using act ne hm n len
      by (simp add: fireball_update_def Let_def explode_def tgi removeFireball_keeps_returned)
  next
    case False
    with impact have "vy (fb_position (fireballObjs sh ! fid)) + vy (fb_velocity (fireballObjs sh ! fid)) * deltaTime \<le> 0"
      by simp
    then show ?thesis
      using False act ne hm n len
      by (simp add: fireball_update_def Let_def tgi addVec_def multiplyScalar_def)
  qed
qed

text \<open>
  C8, as the code has it. From a freshly filled pool of \<open>n\<close> fireballs, after any
  sequence of launch requests, updates and telegraph timers: the pooled and the active
  fireballs together are exactly the \<open>n\<close> fireballs of the pool, no object is ever
  added. A launch request with an empty pool changes nothing (only the warning is logged),
  and it returns \<open>undefined\<close>, which is also what a successful launch returns; a launch
  with a fireball available moves the last pooled fireball to the active list. An active
  fireball whose update reaches its maximum lifetime or the ground is back in the pool, and
  off the active list, when that update returns.
\<close>
theorem C8_pool_never_grows:
  assumes "fireballObjs sh0 = []" "fireballPool sh0 = []" "activeFireballs sh0 = []"
    "pendingTelegraphs sh0 = []"
  shows "(let sh = fm_run ops (initialize n True sh0) in
          length (fireballPool sh) + length (activeFireballs sh) = n
          \<and> length (fireballObjs sh) = n
          \<and> (fireballPool sh = [] \<longrightarrow>
                launchFireball p sh = (emit (EvFireballLaunch p False) sh, Undefined))
          \<and> (fireballPool sh \<noteq> [] \<longrightarrow>
                snd (launchFireball p sh) = Undefined
                \<and> fireballPool (fst (launchFireball p sh)) = butlast (fireballPool sh)
                \<and> activeFireballs (fst (launchFireball p sh))
                    = activeFireballs sh @ [last (fireballPool sh)]
                \<and> length (fireballObjs (fst (launchFireball p sh))) = n)
          \<and> (\<forall>fid \<in> set (activeFireballs sh).
                fb_lifetime (fireballObjs sh ! fid) + deltaTime \<ge> fb_maxLifetime (fireballObjs sh ! fid)
                \<or> vy (fb_position (fireballObjs sh ! fid))
                     + vy (fb_velocity (fireballObjs sh ! fid)) * deltaTime \<le> 0
                \<longrightarrow> fid \<in> set (fireballPool (fireball_update fid deltaTime sh))
                    \<and> fid \<notin> set (activeFireballs (fireball_update fid deltaTime sh))))"
proof -
  define sh where "sh = fm_run ops (initialize n True sh0)"
  have inv: "pool_ok n {} sh"
    unfolding sh_def using assms by (intro pool_ok_fm_run pool_ok_initialize)
  have 1: "length (fireballPool sh) + length (activeFireballs sh) = n" using inv by (rule pool_ok_count)
  have 2: "length (fireballObjs sh) = n" using inv by (simp add: pool_ok_def)
  have 3: "fireballPool sh = [] \<longrightarrow>
                launchFireball p sh = (emit (EvFireballLaunch p False) sh, Undefined)"
    by (simp add: launchFireball_def)
  have l: "pool_ok n {} (fst (launchFireball p sh))" using inv by (rule pool_ok_launchFireball)
  have 4: "fireballPool sh \<noteq> [] \<longrightarrow>
                snd (launchFireball p sh) = Undefined
                \<and> fireballPool (fst (launchFireball p sh)) = butlast (fireballPool sh)
                \<and> activeFireballs (fst (launchFireball p sh))
                    = activeFireballs sh @ [last (fireballPool sh)]
                \<and> length (fireballObjs (fst (launchFireball p sh))) = n"
  proof
    assume ne: "fireballPool sh \<noteq> []"
    have a: "snd (launchFireball p sh) = Undefined" using ne by (simp add: launchFireball_def Let_def)
    have b: "fireballPool (fst (launchFireball p sh)) = butlast (fireballPool sh)
             \<and> activeFireballs (fst (launchFireball p sh)) = activeFireballs sh @ [last (fireballPool sh)]"
      using ne by (simp add: launchFireball_def Let_def launch_def createFireballTelegraph_def emit_def)
    have c: "length (fireballObjs (fst (launchFireball p sh))) = n" using l by (simp add: pool_ok_def)
    show "snd (launchFireball p sh) = Undefined
                \<and> fireballPool (fst (launchFireball p sh)) = butlast (fireballPool sh)
                \<and> activeFireballs (fst (launchFireball p sh))
                    = activeFireballs sh @ [last (fireballPool sh)]
                \<and> length (fireballObjs (fst (launchFireball p sh))) = n"
      using a b c by simp
  qed
  have 5: "\<forall>fid \<in> set (activeFireballs sh).
                fb_lifetime (fireballObjs sh ! fid) + deltaTime \<ge> fb_maxLifetime (fireballObjs sh ! fid)
                \<or> vy (fb_position (fireballObjs sh ! fid))
                     + vy (fb_velocity (fireballObjs sh ! fid)) * deltaTime \<le> 0
                \<longrightarrow> fid \<in> set (fireballPool (fireball_update fid deltaTime sh))
                    \<and> fid \<notin> set (activeFireballs (fireball_update fid deltaTime sh))"
    using impact_returns_to_pool[OF inv] by blast
  show ?thesis using 1 2 3 4 5 by (simp add: sh_def[symmetric] Let_def)
qed


lemma run1: "fm_run [Launch (V3 0 0 0)] (initialize 1 True emptyPoolShared) = fireballInFlight (V3 5 0 0) False"
  by (simp add: fm_step_def fireballInFlight_def emptyPoolShared_def)

lemma inflight_facts:
  "fireballPool (fireballInFlight (V3 5 0 0) False) = []"
  "activeFireballs (fireballInFlight (V3 5 0 0) False) = [0]"
  "vy (fb_position (fireballObjs (fireballInFlight (V3 5 0 0) False) ! 0)) = 15"
  "vy (fb_velocity (fireballObjs (fireballInFlight (V3 5 0 0) False) ! 0)) = - (5 / 2)"
  by (simp_all add: fireball_sample_defs)

theorem C8_pool_never_grows_witness:
  "length (fireballPool (fireballInFlight (V3 5 0 0) False))
     + length (activeFireballs (fireballInFlight (V3 5 0 0) False)) = 1
   \<and> launchFireball (V3 1 0 0) (fireballInFlight (V3 5 0 0) False)
       = (emit (EvFireballLaunch (V3 1 0 0) False) (fireballInFlight (V3 5 0 0) False), Undefined)
   \<and> 0 \<in> set (fireballPool (fireball_update 0 6 (fireballInFlight (V3 5 0 0) False)))
   \<and> 0 \<notin> set (activeFireballs (fireball_update 0 6 (fireballInFlight (V3 5 0 0) False)))"
proof -
  have h: "fireballObjs emptyPoolShared = []" "fireballPool emptyPoolShared = []"
    "activeFireballs emptyPoolShared = []" "pendingTelegraphs emptyPoolShared = []"
    by (simp_all add: emptyPoolShared_def newShared_def)
  note t = C8_pool_never_grows[OF h, of "[Launch (V3 0 0 0)]" 1 "V3 1 0 0" 6, unfolded run1 Let_def]
  show ?thesis using t by (simp add: inflight_facts)
qed

text \<open>
  C8 as stated fails in the return value: the launch that is dropped because the pool is
  empty returns the same value as the launch that succeeded, so the caller gets no
  indication of the rejection.
\<close>
theorem C8_no_rejection_indication_counterexample:
  "fireballPool (fireballInFlight (V3 5 0 0) False) = []
   \<and> fireballPool (initialize 1 True emptyPoolShared) = [0]
   \<and> activeFireballs (fst (launchFireball (V3 0 0 0) (initialize 1 True emptyPoolShared))) = [0]
   \<and> snd (launchFireball (V3 1 0 0) (fireballInFlight (V3 5 0 0) False))
       = snd (launchFireball (V3 0 0 0) (initialize 1 True emptyPoolShared))"
  by (simp add: inflight_facts) (simp add: fireball_sample_defs emptyPoolShared_def)



section \<open>The player's melee attack\<close>

lemma takeDamage_health:
  "health (fst (takeDamage d ap r (e, sh)))
     = (if isDead e \<or> isHit e then health e else damagedHealth (health e) d)"
  by (simp add: takeDamage_def Let_def die_def switchAnimation_def applyKnockback_def damagedHealth_def
      split: option.splits)

lemma hpa_visit_es:
  "fst (fst (hpa_visit P D R A di r e i ((es, sh), hits)))
     = (if inAttackCone P D R A e
        then es[i := fst (takeDamage (case di of None \<Rightarrow> 1 | Some (d, c) \<Rightarrow> d) (Some P) r (e, sh))]
        else es)"
  by (simp add: hpa_visit_def Let_def split: prod.splits)

lemma hpa_visit_hits:
  "map hit_summary (snd (hpa_visit P D R A di r e i ((es, sh), hits)))
     = map hit_summary hits
       @ (if inAttackCone P D R A e
          then [(i, vlength (flat (subVectors (position e) P)), damageOf di)] else [])"
  by (simp add: hpa_visit_def Let_def hit_summary_def damageOf_def split: prod.splits)

lemma hpa_visit_facts:
  assumes "acc1 = hpa_visit P D R A di r e i acc" "i < length (fst (fst acc))" "fst (fst acc) ! i = e"
  shows "length (fst (fst acc1)) = length (fst (fst acc))"
    and "\<And>k. k \<noteq> i \<Longrightarrow> fst (fst acc1) ! k = fst (fst acc) ! k"
    and "health (fst (fst acc1) ! i) = hitHealth P D R A (damageOf di) e"
    and "map hit_summary (snd acc1)
           = map hit_summary (snd acc)
             @ (if inAttackCone P D R A e
                then [(i, vlength (flat (subVectors (position e) P)), damageOf di)] else [])"
proof -
  obtain es sh hits where acc: "acc = ((es, sh), hits)" by (metis surj_pair)
  have es1: "fst (fst acc1) = (if inAttackCone P D R A e
        then es[i := fst (takeDamage (damageOf di) (Some P) r (e, sh))] else es)"
    using assms(1) acc by (simp add: hpa_visit_es damageOf_def)
  show "length (fst (fst acc1)) = length (fst (fst acc))" using es1 acc by simp
  show "\<And>k. k \<noteq> i \<Longrightarrow> fst (fst acc1) ! k = fst (fst acc) ! k" using es1 acc by simp
  show "health (fst (fst acc1) ! i) = hitHealth P D R A (damageOf di) e"
    using es1 acc assms(2,3) by (auto simp: takeDamage_health hitHealth_def inAttackCone_def)
  show "map hit_summary (snd acc1)
           = map hit_summary (snd acc)
             @ (if inAttackCone P D R A e
                then [(i, vlength (flat (subVectors (position e) P)), damageOf di)] else [])"
    using assms(1) acc by (simp add: hpa_visit_hits)
qed

lemma coneHits_cong:
  assumes "\<And>j. j \<in> set js \<Longrightarrow> es ! j = es' ! j"
  shows "coneHits P D R A dmg es js = coneHits P D R A dmg es' js"
proof -
  have f: "filter (\<lambda>j. inAttackCone P D R A (es ! j)) js = filter (\<lambda>j. inAttackCone P D R A (es' ! j)) js"
    by (rule filter_cong[OF refl]) (simp add: assms)
  show ?thesis unfolding coneHits_def f
    by (rule map_cong[OF refl]) (simp add: assms)
qed

lemma coneHits_Cons:
  "coneHits P D R A dmg es (i # js)
     = (if inAttackCone P D R A (es ! i)
        then [(i, vlength (flat (subVectors (position (es ! i)) P)), dmg)] else [])
       @ coneHits P D R A dmg es js"
  by (simp add: coneHits_def)

lemma hpa_loop_spec:
  assumes "i + length todo = length (fst (fst acc))"
    and "\<forall>k < length todo. fst (fst acc) ! (i + k) = todo ! k"
  shows "length (fst (fst (hpa_loop P D R A di rs todo i acc))) = length (fst (fst acc))
         \<and> (\<forall>k < i. fst (fst (hpa_loop P D R A di rs todo i acc)) ! k = fst (fst acc) ! k)
         \<and> (\<forall>k < length todo.
               health (fst (fst (hpa_loop P D R A di rs todo i acc)) ! (i + k))
                 = hitHealth P D R A (damageOf di) (todo ! k))
         \<and> map hit_summary (snd (hpa_loop P D R A di rs todo i acc))
             = map hit_summary (snd acc)
               @ coneHits P D R A (damageOf di) (fst (fst acc)) [i ..< i + length todo]"
  using assms
proof (induction todo arbitrary: i acc)
  case Nil
  then show ?case by (simp add: coneHits_def)
next
  case (Cons e todo)
  let ?es = "fst (fst acc)"
  define acc1 where "acc1 = hpa_visit P D R A di (rs i) e i acc"
  let ?res = "hpa_loop P D R A di rs todo (Suc i) acc1"
  have ilen: "i < length ?es" using Cons.prems(1) by simp
  have ei: "?es ! i = e" using Cons.prems(2)[rule_format, of 0] by simp
  note v = hpa_visit_facts[OF acc1_def ilen ei]
  have p1: "Suc i + length todo = length (fst (fst acc1))" using Cons.prems(1) v(1) by simp
  have p2: "\<forall>k < length todo. fst (fst acc1) ! (Suc i + k) = todo ! k"
  proof (intro allI impI)
    fix k assume k: "k < length todo"
    have "fst (fst acc1) ! (Suc i + k) = ?es ! (Suc i + k)" by (rule v(2)) simp
    also have "\<dots> = (e # todo) ! Suc k" using Cons.prems(2)[rule_format, of "Suc k"] k by simp
    finally show "fst (fst acc1) ! (Suc i + k) = todo ! k" by simp
  qed
  note IH = Cons.IH[OF p1 p2]
  have unf: "hpa_loop P D R A di rs (e # todo) i acc = ?res" by (simp add: acc1_def)
  have g1: "length (fst (fst ?res)) = length ?es" using IH v(1) by simp
  have g2: "\<forall>k < i. fst (fst ?res) ! k = ?es ! k"
  proof (intro allI impI)
    fix k assume "k < i"
    then have "fst (fst ?res) ! k = fst (fst acc1) ! k" using IH by simp
    also have "\<dots> = ?es ! k" using \<open>k < i\<close> by (intro v(2)) simp
    finally show "fst (fst ?res) ! k = ?es ! k" .
  qed
  have g3: "\<forall>k < length (e # todo).
               health (fst (fst ?res) ! (i + k)) = hitHealth P D R A (damageOf di) ((e # todo) ! k)"
  proof (intro allI impI)
    fix k assume k: "k < length (e # todo)"
    show "health (fst (fst ?res) ! (i + k)) = hitHealth P D R A (damageOf di) ((e # todo) ! k)"
    proof (cases k)
      case 0
      have "fst (fst ?res) ! i = fst (fst acc1) ! i" using IH by simp
      then show ?thesis using 0 v(3) by simp
    next
      case (Suc k')
      then have "k' < length todo" using k by simp
      then have "health (fst (fst ?res) ! (Suc i + k')) = hitHealth P D R A (damageOf di) (todo ! k')"
        using IH by simp
      then show ?thesis using Suc by simp
    qed
  qed
  define rest where "rest = [Suc i ..< Suc i + length todo]"
  have f: "coneHits P D R A (damageOf di) (fst (fst acc1)) rest
         = coneHits P D R A (damageOf di) ?es rest"
  proof (rule coneHits_cong)
    fix j assume "j \<in> set rest"
    then have "Suc i \<le> j" unfolding rest_def by (simp only: set_upt atLeastLessThan_iff)
    then have "j \<noteq> i" by simp
    then show "fst (fst acc1) ! j = ?es ! j" by (rule v(2))
  qed
  have g4: "map hit_summary (snd ?res) = map hit_summary (snd acc)
               @ coneHits P D R A (damageOf di) ?es [i ..< i + length (e # todo)]"
  proof -
    have e1: "i + length (e # todo) = Suc i + length todo" by simp
    have e2: "[i ..< Suc i + length todo] = i # rest"
      unfolding rest_def by (rule upt_conv_Cons) simp
    have "map hit_summary (snd ?res) = map hit_summary (snd acc1)
            @ coneHits P D R A (damageOf di) (fst (fst acc1)) rest"
      unfolding rest_def using IH by blast
    also have "\<dots> = (map hit_summary (snd acc)
              @ (if inAttackCone P D R A e
                 then [(i, vlength (flat (subVectors (position e) P)), damageOf di)] else []))
            @ coneHits P D R A (damageOf di) ?es rest"
      by (simp only: v(4) f)
    also have "\<dots> = map hit_summary (snd acc) @ coneHits P D R A (damageOf di) ?es (i # rest)"
      by (simp add: coneHits_Cons ei)
    finally show ?thesis by (simp only: e1 e2)
  qed
  show ?case unfolding unf using g1 g2 g3 g4 by blast
qed

lemma map_insort_key:
  "map f (insort_key (\<lambda>x. k (f x)) x ys) = insort_key k (f x) (map f ys)"
  by (induction ys) simp_all

lemma map_sort_key:
  "map f (sort_key (\<lambda>x. k (f x)) xs) = sort_key k (map f xs)"
  by (induction xs) (simp_all add: map_insort_key)

lemma hit_distance_summary: "hit_distance = (\<lambda>h. (fst \<circ> snd) (hit_summary h))"
  by (simp add: fun_eq_iff hit_summary_def)

text \<open>
  C5, as the code has it. \<open>handlePlayerAttack\<close> visits every enemy once; the hit list
  holds, in the order of the enemy list, exactly the enemies that are not dead, within
  \<open>range\<close> of the origin (horizontally) and within half of the cone angle of the
  direction, each with its horizontal distance from the origin and the damage of the
  attack. Each of them is handed to \<open>takeDamage\<close>, which reduces the health (to no less
  than 0) unless the enemy plays its hit reaction: then the enemy is in the hit list with
  its health unchanged. Every other enemy keeps its health. \<open>triggerAttack\<close> hands the
  hits to the effects sorted by that distance, ascending, and its enemies are those
  \<open>handlePlayerAttack\<close> returns.
\<close>

theorem C5_melee_hits:
  "(let res = handlePlayerAttack P D R A di rs (es, sh) in
      length (fst (fst res)) = length es
      \<and> (\<forall>i < length es. health (fst (fst res) ! i) = hitHealth P D R A (damageOf di) (es ! i))
      \<and> map hit_summary (snd res)
          = map (\<lambda>i. (i, vlength (flat (subVectors (position (es ! i)) P)), damageOf di))
              (filter (\<lambda>i. inAttackCone P D R A (es ! i)) [0 ..< length es]))
   \<and> sorted (map hit_distance (fst (snd (triggerAttack lastDirection r1 r2 rs g))))
   \<and> (\<not> (cs_attackCooldown (combatSystem (world g)) > 0 \<or> cs_isAttacking (combatSystem (world g)))
        \<longrightarrow> (let cs = combatSystem (world g);
                  playerPos = pl_position (thePlayer (world g));
                  attackDir = normalize (flat lastDirection);
                  dmg = calculateDamage (cs_baseDamage cs) (cs_damageVariance cs)
                          (cs_criticalChance cs) (cs_criticalMultiplier cs) r1 r2;
                  res = handlePlayerAttack playerPos attackDir (cs_attackRange cs) (cs_attackAngle cs)
                          (Some (real_of_int (fst dmg), snd dmg)) rs (enemies g, world g)
              in enemies (fst (triggerAttack lastDirection r1 r2 rs g)) = fst (fst res)
                 \<and> fst (snd (triggerAttack lastDirection r1 r2 rs g))
                     = sort_key hit_distance (snd res)
                 \<and> map hit_summary (fst (snd (triggerAttack lastDirection r1 r2 rs g)))
                     = sort_key (fst \<circ> snd)
                         (map (\<lambda>i. (i, vlength (flat (subVectors (position (enemies g ! i)) playerPos)),
                                     real_of_int (fst dmg)))
                            (filter (\<lambda>i. inAttackCone playerPos attackDir (cs_attackRange cs)
                                            (cs_attackAngle cs) (enemies g ! i))
                               [0 ..< length (enemies g)]))))"
proof -
  have spec: "\<And>P D R A di (es :: enemy list) (sh :: shared).
      length (fst (fst (handlePlayerAttack P D R A di rs (es, sh)))) = length es
      \<and> (\<forall>i < length es. health (fst (fst (handlePlayerAttack P D R A di rs (es, sh))) ! i)
                             = hitHealth P D R A (damageOf di) (es ! i))
      \<and> map hit_summary (snd (handlePlayerAttack P D R A di rs (es, sh)))
          = map (\<lambda>i. (i, vlength (flat (subVectors (position (es ! i)) P)), damageOf di))
              (filter (\<lambda>i. inAttackCone P D R A (es ! i)) [0 ..< length es])"
  proof -
    fix P D R A di and es :: "enemy list" and sh :: shared
    have a: "0 + length es = length (fst (fst ((es, sh), ([]::hit list))))" by simp
    have b: "\<forall>k < length es. fst (fst ((es, sh), ([]::hit list))) ! (0 + k) = es ! k" by simp
    note l = hpa_loop_spec[OF a b, of P D R A di rs]
    show "length (fst (fst (handlePlayerAttack P D R A di rs (es, sh)))) = length es
      \<and> (\<forall>i < length es. health (fst (fst (handlePlayerAttack P D R A di rs (es, sh))) ! i)
                             = hitHealth P D R A (damageOf di) (es ! i))
      \<and> map hit_summary (snd (handlePlayerAttack P D R A di rs (es, sh)))
          = map (\<lambda>i. (i, vlength (flat (subVectors (position (es ! i)) P)), damageOf di))
              (filter (\<lambda>i. inAttackCone P D R A (es ! i)) [0 ..< length es])"
      using l by (simp add: handlePlayerAttack_def coneHits_def)
  qed
  have 1: "(let res = handlePlayerAttack P D R A di rs (es, sh) in
      length (fst (fst res)) = length es
      \<and> (\<forall>i < length es. health (fst (fst res) ! i) = hitHealth P D R A (damageOf di) (es ! i))
      \<and> map hit_summary (snd res)
          = map (\<lambda>i. (i, vlength (flat (subVectors (position (es ! i)) P)), damageOf di))
              (filter (\<lambda>i. inAttackCone P D R A (es ! i)) [0 ..< length es]))"
    using spec[of P D R A di es sh] by (simp add: Let_def)
  have 2: "sorted (map hit_distance (fst (snd (triggerAttack lastDirection r1 r2 rs g))))"
    by (simp add: triggerAttack_def Let_def)
  have 3: "(\<not> (cs_attackCooldown (combatSystem (world g)) > 0 \<or> cs_isAttacking (combatSystem (world g)))
        \<longrightarrow> (let cs = combatSystem (world g);
                  playerPos = pl_position (thePlayer (world g));
                  attackDir = normalize (flat lastDirection);
                  dmg = calculateDamage (cs_baseDamage cs) (cs_damageVariance cs)
                          (cs_criticalChance cs) (cs_criticalMultiplier cs) r1 r2;
                  res = handlePlayerAttack playerPos attackDir (cs_attackRange cs) (cs_attackAngle cs)
                          (Some (real_of_int (fst dmg), snd dmg)) rs (enemies g, world g)
              in enemies (fst (triggerAttack lastDirection r1 r2 rs g)) = fst (fst res)
                 \<and> fst (snd (triggerAttack lastDirection r1 r2 rs g))
                     = sort_key hit_distance (snd res)
                 \<and> map hit_summary (fst (snd (triggerAttack lastDirection r1 r2 rs g)))
                     = sort_key (fst \<circ> snd)
                         (map (\<lambda>i. (i, vlength (flat (subVectors (position (enemies g ! i)) playerPos)),
                                     real_of_int (fst dmg)))
                            (filter (\<lambda>i. inAttackCone playerPos attackDir (cs_attackRange cs)
                                            (cs_attackAngle cs) (enemies g ! i))
                               [0 ..< length (enemies g)]))))"
  proof (intro impI)
    assume free: "\<not> (cs_attackCooldown (combatSystem (world g)) > 0 \<or> cs_isAttacking (combatSystem (world g)))"
    define cs where "cs = combatSystem (world g)"
    define dmg where "dmg = calculateDamage (cs_baseDamage cs) (cs_damageVariance cs)
                          (cs_criticalChance cs) (cs_criticalMultiplier cs) r1 r2"
    define res where "res = handlePlayerAttack (pl_position (thePlayer (world g)))
                          (normalize (flat lastDirection)) (cs_attackRange cs) (cs_attackAngle cs)
                          (Some (real_of_int (fst dmg), snd dmg)) rs (enemies g, world g)"
    have t1: "enemies (fst (triggerAttack lastDirection r1 r2 rs g)) = fst (fst res)"
      and t2: "fst (snd (triggerAttack lastDirection r1 r2 rs g)) = sort_key hit_distance (snd res)"
      using free by (simp_all add: triggerAttack_def Let_def res_def dmg_def cs_def)
    have s: "map hit_summary (snd res)
          = map (\<lambda>i. (i, vlength (flat (subVectors (position (enemies g ! i)) (pl_position (thePlayer (world g))))),
                      real_of_int (fst dmg)))
              (filter (\<lambda>i. inAttackCone (pl_position (thePlayer (world g))) (normalize (flat lastDirection))
                              (cs_attackRange cs) (cs_attackAngle cs) (enemies g ! i))
                 [0 ..< length (enemies g)])"
      unfolding res_def
      using spec[of "pl_position (thePlayer (world g))" "normalize (flat lastDirection)"
                    "cs_attackRange cs" "cs_attackAngle cs" "Some (real_of_int (fst dmg), snd dmg)"
                    "enemies g" "world g"]
      by (simp add: damageOf_def)
    have "map hit_summary (sort_key hit_distance (snd res))
            = sort_key (fst \<circ> snd) (map hit_summary (snd res))"
      by (subst hit_distance_summary) (rule map_sort_key)
    then have t3: "map hit_summary (fst (snd (triggerAttack lastDirection r1 r2 rs g)))
            = sort_key (fst \<circ> snd) (map hit_summary (snd res))"
      by (simp only: t2)
    show "(let cs = combatSystem (world g);
                  playerPos = pl_position (thePlayer (world g));
                  attackDir = normalize (flat lastDirection);
                  dmg = calculateDamage (cs_baseDamage cs) (cs_damageVariance cs)
                          (cs_criticalChance cs) (cs_criticalMultiplier cs) r1 r2;
                  res = handlePlayerAttack playerPos attackDir (cs_attackRange cs) (cs_attackAngle cs)
                          (Some (real_of_int (fst dmg), snd dmg)) rs (enemies g, world g)
              in enemies (fst (triggerAttack lastDirection r1 r2 rs g)) = fst (fst res)
                 \<and> fst (snd (triggerAttack lastDirection r1 r2 rs g))
                     = sort_key hit_distance (snd res)
                 \<and> map hit_summary (fst (snd (triggerAttack lastDirection r1 r2 rs g)))
                     = sort_key (fst \<circ> snd)
                         (map (\<lambda>i. (i, vlength (flat (subVectors (position (enemies g ! i)) playerPos)),
                                     real_of_int (fst dmg)))
                            (filter (\<lambda>i. inAttackCone playerPos attackDir (cs_attackRange cs)
                                            (cs_attackAngle cs) (enemies g ! i))
                               [0 ..< length (enemies g)])))"
      unfolding Let_def cs_def[symmetric] dmg_def[symmetric] res_def[symmetric]
      using t1 t2 t3 s by simp
  qed
  show ?thesis using 1 2 3 by blast
qed


lemma sqrt_16: "sqrt 16 = 4" using real_sqrt_abs[of 4] by simp

lemma sqrt_quarter: "sqrt (1 / 4) = 1 / 2" using real_sqrt_abs[of "1 / 2"] by (simp add: power2_eq_square)

lemma cone_samples:
  "inAttackCone (V3 (- 1) (7 / 10) 0) (V3 1 0 0) (5 / 2) 90 newEnemy"
  "inAttackCone (V3 (- 1) (7 / 10) 0) (V3 1 0 0) (5 / 2) 90
     (newEnemy\<lparr>isHit := True, position := V3 (- 1 / 2) (7 / 10) 0\<rparr>)"
  "\<not> inAttackCone (V3 (- 1) (7 / 10) 0) (V3 1 0 0) (5 / 2) 90 (newEnemy\<lparr>position := V3 3 (7 / 10) 0\<rparr>)"
  "\<not> inAttackCone (V3 (- 1) (7 / 10) 0) (V3 1 0 0) (5 / 2) 90 (newEnemy\<lparr>isDead := True\<rparr>)"
  "\<not> inAttackCone (V3 (- 1) (7 / 10) 0) (V3 1 0 0) (5 / 2) 90 (newEnemy\<lparr>position := V3 (- 1) (7 / 10) 1\<rparr>)"
  by (simp_all add: inAttackCone_def attackAngleTo_def newEnemy_def V3_def subVectors_def flat_def
      vlength_def normalize_def multiplyScalar_def dot_def clamp_unit_def sqrt_16 sqrt_quarter)

lemma sample_cone:
  "inAttackCone (V3 (- 1) (7 / 10) 0) (V3 1 0 0) (5 / 2) 90 (sampleEnemies ! 0)"
  "inAttackCone (V3 (- 1) (7 / 10) 0) (V3 1 0 0) (5 / 2) 90 (sampleEnemies ! Suc 0)"
  "\<not> inAttackCone (V3 (- 1) (7 / 10) 0) (V3 1 0 0) (5 / 2) 90 (sampleEnemies ! 2)"
  "\<not> inAttackCone (V3 (- 1) (7 / 10) 0) (V3 1 0 0) (5 / 2) 90 (sampleEnemies ! 3)"
  "\<not> inAttackCone (V3 (- 1) (7 / 10) 0) (V3 1 0 0) (5 / 2) 90 (sampleEnemies ! 4)"
  using cone_samples by (simp_all add: sampleEnemies_def numeral_2_eq_2 numeral_3_eq_3 eval_nat_numeral)

lemma sample_values:
  "health (sampleEnemies ! 0) = 50" "\<not> isHit (sampleEnemies ! 0)"
  "health (sampleEnemies ! Suc 0) = 50" "isHit (sampleEnemies ! Suc 0)"
  "\<not> isDead (sampleEnemies ! Suc 0)"
  "health (sampleEnemies ! 2) = 50" "health (sampleEnemies ! 3) = 50"
  "health (sampleEnemies ! 4) = 50"
  "length sampleEnemies = 5"
  "vlength (flat (subVectors (position (sampleEnemies ! 0)) (V3 (- 1) (7 / 10) 0))) = 1"
  "vlength (flat (subVectors (position (sampleEnemies ! Suc 0)) (V3 (- 1) (7 / 10) 0))) = 1 / 2"
  "vlength (flat (subVectors (position (sampleEnemies ! 4)) (V3 (- 1) (7 / 10) 0))) = 1"
  by (simp_all add: sampleEnemies_def newEnemy_def eval_nat_numeral V3_def subVectors_def flat_def
      vlength_def sqrt_quarter)

lemma upt_5: "[0 ..< 5] = [0, 1, 2, 3, 4]"
  by (simp add: upt_rec)

lemma sample_roll:
  "calculateDamage 10 (1 / 5) (3 / 20) 2 (1 / 2) (1 / 2) = (10, False)"
  "normalize (flat (V3 1 0 0)) = V3 1 0 0"
  by (simp_all add: calculateDamage_def js_round_def normalize_def flat_def V3_def vlength_def
      multiplyScalar_def)

theorem C5_melee_hits_witness:
  "map (\<lambda>i. health (fst (fst sampleAttack) ! i)) [0, 1, 2, 3, 4] = [40, 50, 50, 50, 50]
   \<and> map hit_summary (snd sampleAttack) = [(0, 1, 10), (1, 1 / 2, 10)]
   \<and> vlength (flat (subVectors (position (sampleEnemies ! 4)) (V3 (- 1) (7 / 10) 0))) \<le> 5 / 2
   \<and> map hit_summary (fst (snd (triggerAttack (V3 1 0 0) (1 / 2) (1 / 2) (\<lambda>i. 1 / 2)
                                  (newGame sampleEnemies (newShared (V3 (- 1) (7 / 10) 0))))))
       = [(1, 1 / 2, 10), (0, 1, 10)]"
proof -
  note c = C5_melee_hits[where P = "V3 (- 1) (7 / 10) 0" and D = "V3 1 0 0" and R = "5 / 2" and A = 90
      and di = "Some (10, False)" and rs = "\<lambda>i. 1 / 2" and es = sampleEnemies
      and sh = "newShared (V3 (- 1) (7 / 10) 0)" and lastDirection = "V3 1 0 0" and ?r1.0 = "1 / 2"
      and ?r2.0 = "1 / 2" and g = "newGame sampleEnemies (newShared (V3 (- 1) (7 / 10) 0))"]
  note t = c[THEN conjunct1, folded sampleAttack_def, unfolded Let_def]
  have h: "\<forall>i < 5. health (fst (fst sampleAttack) ! i)
             = hitHealth (V3 (- 1) (7 / 10) 0) (V3 1 0 0) (5 / 2) 90 (damageOf (Some (10, False))) (sampleEnemies ! i)"
    using t by (simp add: sample_values)
  have m: "map hit_summary (snd sampleAttack)
             = map (\<lambda>i. (i, vlength (flat (subVectors (position (sampleEnemies ! i)) (V3 (- 1) (7 / 10) 0))),
                         damageOf (Some (10, False))))
                 (filter (\<lambda>i. inAttackCone (V3 (- 1) (7 / 10) 0) (V3 1 0 0) (5 / 2) 90 (sampleEnemies ! i)) [0 ..< 5])"
    using t by (simp add: sample_values)
  have free: "\<not> (cs_attackCooldown (combatSystem (world (newGame sampleEnemies (newShared (V3 (- 1) (7 / 10) 0))))) > 0
                \<or> cs_isAttacking (combatSystem (world (newGame sampleEnemies (newShared (V3 (- 1) (7 / 10) 0))))))"
    by (simp add: newGame_def newShared_def newCombatSystem_def)
  note u = c[THEN conjunct2, THEN conjunct2, rule_format, OF free, unfolded Let_def, THEN conjunct2, THEN conjunct2]
  have s: "map hit_summary (fst (snd (triggerAttack (V3 1 0 0) (1 / 2) (1 / 2) (\<lambda>i. 1 / 2)
                                  (newGame sampleEnemies (newShared (V3 (- 1) (7 / 10) 0))))))
       = sort_key (fst \<circ> snd)
           (map (\<lambda>i. (i, vlength (flat (subVectors (position (sampleEnemies ! i)) (V3 (- 1) (7 / 10) 0))), 10))
              (filter (\<lambda>i. inAttackCone (V3 (- 1) (7 / 10) 0) (V3 1 0 0) (5 / 2) 90 (sampleEnemies ! i)) [0 ..< 5]))"
    using u by (simp add: newGame_def newShared_def newCombatSystem_def sample_roll sample_values)
  have 1: "map (\<lambda>i. health (fst (fst sampleAttack) ! i)) [0, 1, 2, 3, 4] = [40, 50, 50, 50, 50]"
    using h[rule_format, of 0] h[rule_format, of 1] h[rule_format, of 2] h[rule_format, of 3]
          h[rule_format, of 4]
    by (simp add: damageOf_def hitHealth_def damagedHealth_def sample_cone sample_values)
  have 2: "map hit_summary (snd sampleAttack) = [(0, 1, 10), (1, 1 / 2, 10)]"
    using m by (simp add: upt_5 damageOf_def sample_cone sample_values)
  have 3: "vlength (flat (subVectors (position (sampleEnemies ! 4)) (V3 (- 1) (7 / 10) 0))) \<le> 5 / 2"
    by (simp add: sample_values)
  have 4: "map hit_summary (fst (snd (triggerAttack (V3 1 0 0) (1 / 2) (1 / 2) (\<lambda>i. 1 / 2)
                                  (newGame sampleEnemies (newShared (V3 (- 1) (7 / 10) 0))))))
       = [(1, 1 / 2, 10), (0, 1, 10)]"
    using s by (simp add: upt_5 sample_cone sample_values)
  show ?thesis using 1 2 3 4 by blast
qed

text \<open>
  C5 as stated fails for an enemy in its hit reaction: the second sample enemy is alive,
  half a unit in front of the player and on the axis of the attack; it is reported as hit
  with 10 damage, and its health stays 50.
\<close>

theorem C5_hit_reaction_counterexample:
  "inAttackCone (V3 (- 1) (7 / 10) 0) (V3 1 0 0) (5 / 2) 90 (sampleEnemies ! 1)
   \<and> \<not> isDead (sampleEnemies ! 1)
   \<and> health (sampleEnemies ! 1) = 50
   \<and> health (fst (fst sampleAttack) ! 1) = 50
   \<and> map hit_summary (snd sampleAttack) = [(0, 1, 10), (1, 1 / 2, 10)]"
proof -
  have a: "0 + length sampleEnemies
             = length (fst (fst ((sampleEnemies, newShared (V3 (- 1) (7 / 10) 0)), ([]::hit list))))"
    by simp
  have b: "\<forall>k < length sampleEnemies.
             fst (fst ((sampleEnemies, newShared (V3 (- 1) (7 / 10) 0)), ([]::hit list))) ! (0 + k)
               = sampleEnemies ! k" by simp
  note l = hpa_loop_spec[OF a b, of "V3 (- 1) (7 / 10) 0" "V3 1 0 0" "5 / 2" 90 "Some (10, False)" "\<lambda>i. 1 / 2"]
  have h: "health (fst (fst sampleAttack) ! (0 + 1))
             = hitHealth (V3 (- 1) (7 / 10) 0) (V3 1 0 0) (5 / 2) 90 (damageOf (Some (10, False))) (sampleEnemies ! 1)"
    using l by (simp add: sampleAttack_def handlePlayerAttack_def sample_values)
  have m: "map hit_summary (snd sampleAttack)
             = coneHits (V3 (- 1) (7 / 10) 0) (V3 1 0 0) (5 / 2) 90 (damageOf (Some (10, False)))
                 sampleEnemies [0 ..< 5]"
    using l by (simp add: sampleAttack_def handlePlayerAttack_def sample_values)
  show ?thesis using h m
    by (simp add: upt_5 hitHealth_def sample_cone sample_values coneHits_def damageOf_def)
qed


end
